theory Spec2Isabelle
  imports Complex_Main
begin

section \<open>Values, errors and one-dimensional tensors\<close>

text \<open>
  The module \<^verbatim>\<open>feature_alignment/model/tdpo.py\<close> computes the TDPO training signal
  on PyTorch tensors. Finite tensor entries are modelled as exact reals: rounding,
  overflow and underflow of floating point numbers are not modelled, and the only
  values that are not finite are those a division by zero produces. The two
  exceptions the module can raise are Python's \<^verbatim>\<open>AssertionError\<close> (the two shape
  asserts) and PyTorch's \<^verbatim>\<open>RuntimeError\<close> (shapes that do not broadcast, a
  \<^verbatim>\<open>gather\<close> index outside the gathered dimension).
\<close>

datatype error = AssertionError | RuntimeError

definition result_bind :: "error + 'a \<Rightarrow> ('a \<Rightarrow> error + 'b) \<Rightarrow> error + 'b" where
  "result_bind m f = (case m of Inl e \<Rightarrow> Inl e | Inr x \<Rightarrow> f x)"

text \<open>
  A tensor entry that takes part in automatic differentiation carries its value and
  its derivative with respect to every leaf of the graph (\<open>'l\<close> names the leaves).
  \<^verbatim>\<open>detach()\<close> keeps the value and cuts the entry off the graph: its derivative
  with respect to every leaf is zero.
\<close>

record 'l tracked =
  data :: real
  grad :: "'l \<Rightarrow> real"

type_synonym 'l tensor1 = "'l tracked list"

text \<open>
  \<^verbatim>\<open>F.logsigmoid\<close> on exact reals, where it is strictly increasing; a float
  \<^verbatim>\<open>logsigmoid\<close> saturates for large arguments.
\<close>

definition sigmoid :: "real \<Rightarrow> real" where
  "sigmoid x = 1 / (1 + exp (- x))"

definition logsigmoid :: "real \<Rightarrow> real" where
  "logsigmoid x = ln (sigmoid x)"

definition tr_add :: "'l tracked \<Rightarrow> 'l tracked \<Rightarrow> 'l tracked" where
  "tr_add a b = \<lparr>data = data a + data b, grad = (\<lambda>l. grad a l + grad b l)\<rparr>"

definition tr_sub :: "'l tracked \<Rightarrow> 'l tracked \<Rightarrow> 'l tracked" where
  "tr_sub a b = \<lparr>data = data a - data b, grad = (\<lambda>l. grad a l - grad b l)\<rparr>"

definition tr_scale :: "real \<Rightarrow> 'l tracked \<Rightarrow> 'l tracked" where
  "tr_scale c a = \<lparr>data = c * data a, grad = (\<lambda>l. c * grad a l)\<rparr>"

definition tr_neg :: "'l tracked \<Rightarrow> 'l tracked" where
  "tr_neg a = \<lparr>data = - data a, grad = (\<lambda>l. - grad a l)\<rparr>"

definition tr_logsigmoid :: "'l tracked \<Rightarrow> 'l tracked" where
  "tr_logsigmoid a =
     \<lparr>data = logsigmoid (data a), grad = (\<lambda>l. (1 - sigmoid (data a)) * grad a l)\<rparr>"

definition tr_detach :: "'l tracked \<Rightarrow> 'l tracked" where
  "tr_detach a = \<lparr>data = data a, grad = (\<lambda>l. 0)\<rparr>"

text \<open>
  A binary operator on two tensors of shape \<open>(n,)\<close> and \<open>(m,)\<close> broadcasts: equal
  sizes combine entry by entry, a size of one is stretched, anything else raises.
\<close>

definition broadcast1 ::
  "('a \<Rightarrow> 'b \<Rightarrow> 'c) \<Rightarrow> 'a list \<Rightarrow> 'b list \<Rightarrow> error + 'c list" where
  "broadcast1 f xs ys =
     (if length xs = length ys then Inr (map2 f xs ys)
      else if length xs = 1 then Inr (map (\<lambda>y. f (hd xs) y) ys)
      else if length ys = 1 then Inr (map (\<lambda>x. f x (hd ys)) xs)
      else Inl RuntimeError)"

definition t_add :: "'l tensor1 \<Rightarrow> 'l tensor1 \<Rightarrow> error + 'l tensor1" where
  "t_add = broadcast1 tr_add"

definition t_sub :: "'l tensor1 \<Rightarrow> 'l tensor1 \<Rightarrow> error + 'l tensor1" where
  "t_sub = broadcast1 tr_sub"

definition t_scale :: "real \<Rightarrow> 'l tensor1 \<Rightarrow> 'l tensor1" where
  "t_scale c = map (tr_scale c)"

definition t_neg :: "'l tensor1 \<Rightarrow> 'l tensor1" where
  "t_neg = map tr_neg"

definition t_logsigmoid :: "'l tensor1 \<Rightarrow> 'l tensor1" where
  "t_logsigmoid = map tr_logsigmoid"

definition t_detach :: "'l tensor1 \<Rightarrow> 'l tensor1" where
  "t_detach = map tr_detach"

section \<open>The two loss variants\<close>

text \<open>
  \<^verbatim>\<open>self.config\<close>: \<open>loss.beta\<close> is read by both variants, \<open>loss.alpha\<close> by TDPO2
  only, \<open>mode\<close> names the metrics.
\<close>

record loss_config =
  beta :: real
  alpha :: real

record config =
  loss :: loss_config
  mode :: string

text \<open>\<^verbatim>\<open>TDPO1Model.loss\<close>.\<close>

definition TDPO1_loss ::
  "config \<Rightarrow> 'l tensor1 \<Rightarrow> 'l tensor1 \<Rightarrow> 'l tensor1 \<Rightarrow> 'l tensor1
     \<Rightarrow> error + ('l tensor1 \<times> 'l tensor1 \<times> 'l tensor1)" where
  "TDPO1_loss config chosen_logps_margin rejected_logps_margin
       chosen_position_kl rejected_position_kl =
     result_bind (t_add chosen_logps_margin chosen_position_kl) (\<lambda>chosen_values.
     result_bind (t_add rejected_logps_margin rejected_position_kl) (\<lambda>rejected_values.
     result_bind (t_sub chosen_logps_margin rejected_logps_margin)
       (\<lambda>chosen_rejected_logps_margin.
     result_bind (t_sub rejected_position_kl chosen_position_kl) (\<lambda>kl_diff.
     result_bind (t_sub chosen_rejected_logps_margin kl_diff) (\<lambda>logits.
       let beta = beta (loss config);
           losses = t_neg (t_logsigmoid (t_scale beta logits));
           chosen_rewards = t_scale (loss_config.beta (loss config)) (t_detach chosen_values);
           rejected_rewards = t_scale beta (t_detach rejected_values)
       in Inr (losses, chosen_rewards, rejected_rewards))))))"

text \<open>\<^verbatim>\<open>TDPO2Model.loss\<close>.\<close>

definition TDPO2_loss ::
  "config \<Rightarrow> 'l tensor1 \<Rightarrow> 'l tensor1 \<Rightarrow> 'l tensor1 \<Rightarrow> 'l tensor1
     \<Rightarrow> error + ('l tensor1 \<times> 'l tensor1 \<times> 'l tensor1)" where
  "TDPO2_loss config chosen_logps_margin rejected_logps_margin
       chosen_position_kl rejected_position_kl =
     result_bind (t_add chosen_logps_margin chosen_position_kl) (\<lambda>chosen_values.
     result_bind (t_add rejected_logps_margin rejected_position_kl) (\<lambda>rejected_values.
     result_bind (t_sub chosen_logps_margin rejected_logps_margin)
       (\<lambda>chosen_rejected_logps_margin.
       let alpha = alpha (loss config);
           beta = beta (loss config)
       in
     result_bind (t_sub rejected_position_kl (t_detach chosen_position_kl)) (\<lambda>kl_diff.
     result_bind (t_sub chosen_rejected_logps_margin (t_scale alpha kl_diff)) (\<lambda>logits.
       let losses = t_neg (t_logsigmoid (t_scale beta logits));
           chosen_rewards = t_scale beta (t_detach chosen_values);
           rejected_rewards = t_scale beta (t_detach rejected_values)
       in Inr (losses, chosen_rewards, rejected_rewards))))))"

text \<open>
  The forward values of a result of either variant, without the graph: what a caller
  sees who only reads the numbers.
\<close>

definition forward_values ::
  "error + ('l tensor1 \<times> 'l tensor1 \<times> 'l tensor1)
     \<Rightarrow> error + (real list \<times> real list \<times> real list)" where
  "forward_values r =
     (case r of Inl e \<Rightarrow> Inl e
      | Inr (losses, chosen_rewards, rejected_rewards) \<Rightarrow>
          Inr (map data losses, map data chosen_rewards, map data rejected_rewards))"

text \<open>
  The leaves of a gradient check: each input of the loss is a leaf tensor of its own,
  so an entry's derivative is one with respect to itself and zero otherwise.
\<close>

datatype leaf = ChosenMargin nat | RejectedMargin nat | ChosenKL nat | RejectedKL nat

definition leaf_tensor :: "(nat \<Rightarrow> leaf) \<Rightarrow> real list \<Rightarrow> leaf tensor1" where
  "leaf_tensor name xs =
     map (\<lambda>i. \<lparr>data = xs ! i, grad = (\<lambda>l. if l = name i then 1 else 0)\<rparr>) [0..<length xs]"

section \<open>The sequence aligner\<close>

text \<open>
  Tensors of rank two and three are a shape and the entries at the indices inside it.
  \<open>fval\<close> is an entry of a float tensor that a division produced: dividing by zero
  does not raise, it gives not-a-number or an infinity.
\<close>

record 'a tensor2 =
  rows :: nat
  cols :: nat
  at2 :: "nat \<Rightarrow> nat \<Rightarrow> 'a"

record tensor3 =
  dim0 :: nat
  dim1 :: nat
  dim2 :: nat
  at3 :: "nat \<Rightarrow> nat \<Rightarrow> nat \<Rightarrow> real"

datatype fval = Fin real | NaN | PosInf | NegInf

definition fdiv :: "real \<Rightarrow> real \<Rightarrow> fval" where
  "fdiv x n =
     (if n \<noteq> 0 then Fin (x / n)
      else if x = 0 then NaN
      else if 0 < x then PosInf else NegInf)"

text \<open>Broadcasting of one dimension, and the index an operand is read at.\<close>

definition bdim :: "nat \<Rightarrow> nat \<Rightarrow> nat option" where
  "bdim m n = (if m = n then Some m else if m = 1 then Some n else if n = 1 then Some m else None)"

definition bidx :: "nat \<Rightarrow> nat \<Rightarrow> nat" where
  "bidx d i = (if d = 1 then 0 else i)"

definition broadcast2 ::
  "('a \<Rightarrow> 'b \<Rightarrow> 'c) \<Rightarrow> 'a tensor2 \<Rightarrow> 'b tensor2 \<Rightarrow> error + 'c tensor2" where
  "broadcast2 f a b =
     (case (bdim (rows a) (rows b), bdim (cols a) (cols b)) of
        (Some r, Some c) \<Rightarrow>
          Inr \<lparr>rows = r, cols = c,
               at2 = (\<lambda>i j. f (at2 a (bidx (rows a) i) (bidx (cols a) j))
                               (at2 b (bidx (rows b) i) (bidx (cols b) j)))\<rparr>
      | _ \<Rightarrow> Inl RuntimeError)"

definition broadcast3 ::
  "(real \<Rightarrow> real \<Rightarrow> real) \<Rightarrow> tensor3 \<Rightarrow> tensor3 \<Rightarrow> error + tensor3" where
  "broadcast3 f a b =
     (case (bdim (dim0 a) (dim0 b), bdim (dim1 a) (dim1 b), bdim (dim2 a) (dim2 b)) of
        (Some d0, Some d1, Some d2) \<Rightarrow>
          Inr \<lparr>dim0 = d0, dim1 = d1, dim2 = d2,
               at3 = (\<lambda>i j k.
                 f (at3 a (bidx (dim0 a) i) (bidx (dim1 a) j) (bidx (dim2 a) k))
                   (at3 b (bidx (dim0 b) i) (bidx (dim1 b) j) (bidx (dim2 b) k)))\<rparr>
      | _ \<Rightarrow> Inl RuntimeError)"

text \<open>
  \<^verbatim>\<open>x * loss_mask\<close>: the boolean mask is promoted to 1.0 and 0.0. On the exact values
  of this model a masked product is 0. A float product of 0.0 with not-a-number or an
  infinity is not-a-number; the aligner below never meets such an entry, the float
  program can.
\<close>

definition mul_mask :: "real \<Rightarrow> bool \<Rightarrow> real" where
  "mul_mask x m = x * (if m then 1 else 0)"

text \<open>An operator applied to every entry of a tensor of rank two.\<close>

definition map_tensor2 :: "('a \<Rightarrow> 'b) \<Rightarrow> 'a tensor2 \<Rightarrow> 'b tensor2" where
  "map_tensor2 f x = \<lparr>rows = rows x, cols = cols x, at2 = (\<lambda>b t. f (at2 x b t))\<rparr>"

text \<open>\<^verbatim>\<open>labels[:, 1:]\<close> and \<^verbatim>\<open>logits[:, :-1, :]\<close>; an empty sequence stays empty.\<close>

definition drop_first_label :: "'a tensor2 \<Rightarrow> 'a tensor2" where
  "drop_first_label labels =
     \<lparr>rows = rows labels, cols = cols labels - 1, at2 = (\<lambda>b t. at2 labels b (t + 1))\<rparr>"

definition drop_last_position :: "tensor3 \<Rightarrow> tensor3" where
  "drop_last_position logits = logits\<lparr>dim1 := dim1 logits - 1\<rparr>"

text \<open>
  \<^verbatim>\<open>log_softmax(-1)\<close>, \<^verbatim>\<open>softmax(-1)\<close> and \<^verbatim>\<open>log()\<close> on exact reals. Every entry of an
  exact softmax is positive, so its logarithm is finite. In floating point an entry
  of the softmax can underflow to 0, and \<^verbatim>\<open>softmax(-1).log()\<close> is then minus infinity
  there; this model does not cover that.
\<close>

definition log_softmax :: "tensor3 \<Rightarrow> tensor3" where
  "log_softmax x =
     x\<lparr>at3 := (\<lambda>b t v. at3 x b t v - ln (\<Sum>u<dim2 x. exp (at3 x b t u)))\<rparr>"

definition softmax :: "tensor3 \<Rightarrow> tensor3" where
  "softmax x =
     x\<lparr>at3 := (\<lambda>b t v. exp (at3 x b t v) / (\<Sum>u<dim2 x. exp (at3 x b t u)))\<rparr>"

definition log_t :: "tensor3 \<Rightarrow> tensor3" where
  "log_t x = x\<lparr>at3 := (\<lambda>b t v. ln (at3 x b t v))\<rparr>"

definition sum_last3 :: "tensor3 \<Rightarrow> real tensor2" where
  "sum_last3 x = \<lparr>rows = dim0 x, cols = dim1 x, at2 = (\<lambda>b t. \<Sum>v<dim2 x. at3 x b t v)\<rparr>"

definition sum_last2 :: "real tensor2 \<Rightarrow> real list" where
  "sum_last2 x = map (\<lambda>b. \<Sum>t<cols x. at2 x b t) [0..<rows x]"

definition count_last2 :: "bool tensor2 \<Rightarrow> real list" where
  "count_last2 m = map (\<lambda>b. \<Sum>t<cols m. if at2 m b t then 1 else 0) [0..<rows m]"

text \<open>
  \<^verbatim>\<open>torch.gather(x, dim=2, index=labels.unsqueeze(2)).squeeze(2)\<close>: the index may not
  be larger than \<open>x\<close> in the first two dimensions, and every index entry must lie in
  the third dimension of \<open>x\<close>.
\<close>

definition gather_labels :: "tensor3 \<Rightarrow> int tensor2 \<Rightarrow> error + real tensor2" where
  "gather_labels x labels =
     (if rows labels \<le> dim0 x \<and> cols labels \<le> dim1 x \<and>
         (\<forall>b\<in>{..<rows labels}. \<forall>t\<in>{..<cols labels}. 0 \<le> at2 labels b t \<and> at2 labels b t < int (dim2 x))
      then Inr \<lparr>rows = rows labels, cols = cols labels,
                at2 = (\<lambda>b t. at3 x b t (nat (at2 labels b t)))\<rparr>
      else Inl RuntimeError)"

text \<open>
  The two asserts at the head of \<^verbatim>\<open>tdpo_get_batch_logps\<close>. The ranks are those of
  the docstring: both logits tensors have rank three and the labels rank two, so
  \<^verbatim>\<open>shape[:-1]\<close> of the logits is compared with the two sizes of the labels.
\<close>

definition shape_precondition :: "tensor3 \<Rightarrow> tensor3 \<Rightarrow> int tensor2 \<Rightarrow> bool" where
  "shape_precondition logits reference_logits labels \<longleftrightarrow>
     (dim0 logits, dim1 logits) = (rows labels, cols labels) \<and>
     (dim0 reference_logits, dim1 reference_logits) = (rows labels, cols labels)"

text \<open>\<^verbatim>\<open>tdpo_get_batch_logps\<close>.\<close>

definition tdpo_get_batch_logps ::
  "tensor3 \<Rightarrow> tensor3 \<Rightarrow> int tensor2 \<Rightarrow> bool
     \<Rightarrow> error + (fval list \<times> fval list \<times> fval list)" where
  "tdpo_get_batch_logps logits0 reference_logits0 labels0 average_log_prob =
     (if (dim0 logits0, dim1 logits0) \<noteq> (rows labels0, cols labels0) then Inl AssertionError
      else if (dim0 reference_logits0, dim1 reference_logits0) \<noteq> (rows labels0, cols labels0)
      then Inl AssertionError
      else
        let labels1 = drop_first_label labels0;
            logits = drop_last_position logits0;
            reference_logits = drop_last_position reference_logits0;
            loss_mask = map_tensor2 (\<lambda>label. label \<noteq> - 100) labels1;
            labels = map_tensor2 (\<lambda>label. if label = - 100 then 0 else label) labels1;
            vocab_logps = log_softmax logits;
            reference_vocab_ps = softmax reference_logits;
            reference_vocab_logps = log_t reference_vocab_ps
        in
        result_bind (broadcast3 (-) reference_vocab_logps vocab_logps) (\<lambda>logps_diff.
        result_bind (broadcast3 (*) reference_vocab_ps logps_diff) (\<lambda>weighted.
          let per_position_kl = sum_last3 weighted in
        result_bind (gather_labels vocab_logps labels) (\<lambda>gathered.
        result_bind (broadcast2 mul_mask gathered loss_mask) (\<lambda>per_token_logps.
        result_bind (gather_labels reference_vocab_logps labels) (\<lambda>reference_gathered.
        result_bind (broadcast2 mul_mask reference_gathered loss_mask)
          (\<lambda>per_reference_token_logps.
        result_bind (broadcast2 (-) per_token_logps per_reference_token_logps)
          (\<lambda>logps_margin.
        result_bind (broadcast2 mul_mask logps_margin loss_mask) (\<lambda>masked_margin.
        result_bind (broadcast2 mul_mask per_position_kl loss_mask) (\<lambda>masked_kl.
        result_bind (broadcast2 mul_mask per_token_logps loss_mask) (\<lambda>masked_logps.
          if average_log_prob then
            result_bind (broadcast1 fdiv (sum_last2 masked_margin) (count_last2 loss_mask))
              (\<lambda>r1.
            result_bind (broadcast1 fdiv (sum_last2 masked_kl) (count_last2 loss_mask))
              (\<lambda>r2.
            result_bind (broadcast1 fdiv (sum_last2 masked_logps) (count_last2 loss_mask))
              (\<lambda>r3. Inr (r1, r2, r3))))
          else
            Inr (map Fin (sum_last2 masked_margin),
                 map Fin (sum_last2 masked_kl),
                 map Fin (sum_last2 masked_logps)))))))))))))"

section \<open>What the aligner returns for one sequence\<close>

text \<open>
  The quantities below name the entries of the intermediate tensors of
  \<^verbatim>\<open>tdpo_get_batch_logps\<close> for sequence \<open>b\<close> and shifted position \<open>t\<close>; the lemma
  \<open>tdpo_returns\<close> shows that the function returns exactly their sums. \<open>d\<close> is the
  vocabulary size the two logits tensors broadcast to.
\<close>

definition shifted_mask :: "int tensor2 \<Rightarrow> nat \<Rightarrow> nat \<Rightarrow> bool" where
  "shifted_mask labels b t \<longleftrightarrow> at2 labels b (Suc t) \<noteq> - 100"

definition shifted_label :: "int tensor2 \<Rightarrow> nat \<Rightarrow> nat \<Rightarrow> int" where
  "shifted_label labels b t = (if at2 labels b (Suc t) = - 100 then 0 else at2 labels b (Suc t))"

definition labels_index :: "nat \<Rightarrow> int tensor2 \<Rightarrow> bool" where
  "labels_index V labels \<longleftrightarrow>
     (\<forall>b\<in>{..<rows labels}. \<forall>t\<in>{..<cols labels - 1}.
        0 \<le> shifted_label labels b t \<and> shifted_label labels b t < int V)"

definition token_logp :: "tensor3 \<Rightarrow> int tensor2 \<Rightarrow> nat \<Rightarrow> nat \<Rightarrow> real" where
  "token_logp logits labels b t =
     mul_mask (at3 (log_softmax logits) b t (nat (shifted_label labels b t)))
       (shifted_mask labels b t)"

definition reference_token_logp :: "tensor3 \<Rightarrow> int tensor2 \<Rightarrow> nat \<Rightarrow> nat \<Rightarrow> real" where
  "reference_token_logp reference_logits labels b t =
     mul_mask (at3 (log_t (softmax reference_logits)) b t (nat (shifted_label labels b t)))
       (shifted_mask labels b t)"

definition position_kl :: "nat \<Rightarrow> tensor3 \<Rightarrow> tensor3 \<Rightarrow> nat \<Rightarrow> nat \<Rightarrow> real" where
  "position_kl d logits reference_logits b t =
     (\<Sum>k<d. at3 (softmax reference_logits) b t (bidx (dim2 reference_logits) k) *
        (at3 (log_t (softmax reference_logits)) b t (bidx (dim2 reference_logits) k) -
         at3 (log_softmax logits) b t (bidx (dim2 logits) k)))"

definition margin_sum :: "tensor3 \<Rightarrow> tensor3 \<Rightarrow> int tensor2 \<Rightarrow> nat \<Rightarrow> real" where
  "margin_sum logits reference_logits labels b =
     (\<Sum>t<cols labels - 1.
        mul_mask (token_logp logits labels b t - reference_token_logp reference_logits labels b t)
          (shifted_mask labels b t))"

definition kl_sum :: "nat \<Rightarrow> tensor3 \<Rightarrow> tensor3 \<Rightarrow> int tensor2 \<Rightarrow> nat \<Rightarrow> real" where
  "kl_sum d logits reference_logits labels b =
     (\<Sum>t<cols labels - 1.
        mul_mask (position_kl d logits reference_logits b t) (shifted_mask labels b t))"

definition logp_sum :: "tensor3 \<Rightarrow> int tensor2 \<Rightarrow> nat \<Rightarrow> real" where
  "logp_sum logits labels b =
     (\<Sum>t<cols labels - 1. mul_mask (token_logp logits labels b t) (shifted_mask labels b t))"

definition mask_count :: "int tensor2 \<Rightarrow> nat \<Rightarrow> real" where
  "mask_count labels b = (\<Sum>t<cols labels - 1. if shifted_mask labels b t then 1 else 0)"

definition aggregate :: "bool \<Rightarrow> real \<Rightarrow> real \<Rightarrow> fval" where
  "aggregate average_log_prob s n = (if average_log_prob then fdiv s n else Fin s)"

section \<open>The batch orchestration\<close>

text \<open>
  \<^verbatim>\<open>TDPO1Model.forward\<close>. The networks and \<^verbatim>\<open>concatenated_inputs\<close> (inherited from
  \<^verbatim>\<open>DPOModel\<close>) are outside this module and enter as functions; a network maps the
  input ids, the attention mask and \<^verbatim>\<open>use_cache\<close> to its \<^verbatim>\<open>logits\<close>. The cast
  \<^verbatim>\<open>.to(self.precision)\<close> does not change an exact value.
\<close>

record concatenated_batch =
  concatenated_combined_input_ids :: "int tensor2"
  concatenated_combined_attention_mask :: "int tensor2"
  concatenated_labels :: "int tensor2"

record batch =
  chosen_input_ids :: "int tensor2"

type_synonym network = "int tensor2 \<Rightarrow> int tensor2 \<Rightarrow> bool \<Rightarrow> tensor3"

record 'a tdpo_model =
  concatenated_inputs :: "'a batch_scheme \<Rightarrow> concatenated_batch"
  reference_model :: network
  is_mistral :: bool

definition forward ::
  "'a tdpo_model \<Rightarrow> network \<Rightarrow> 'a batch_scheme \<Rightarrow> bool
     \<Rightarrow> error + (fval list \<times> fval list \<times> fval list \<times> fval list \<times> fval list \<times> fval list)"
  where
  "forward self model batch average_log_prob =
     (let concatenated_batch = concatenated_inputs self batch;
          all_logits =
            model (concatenated_combined_input_ids concatenated_batch)
              (concatenated_combined_attention_mask concatenated_batch)
              (\<not> is_mistral self);
          reference_all_logits =
            reference_model self (concatenated_combined_input_ids concatenated_batch)
              (concatenated_combined_attention_mask concatenated_batch)
              (\<not> is_mistral self)
      in
      result_bind
        (tdpo_get_batch_logps all_logits reference_all_logits
           (concatenated_labels concatenated_batch) False)
        (\<lambda>(all_logps_margin, all_position_kl, all_logps).
          let n = rows (chosen_input_ids batch);
              chosen_logps_margin = take n all_logps_margin;
              rejected_logps_margin = drop n all_logps_margin;
              chosen_position_kl = take n all_position_kl;
              rejected_position_kl = drop n all_position_kl;
              chosen_logps = take n all_logps;
              rejected_logps = drop n all_logps
          in Inr (chosen_logps_margin, rejected_logps_margin, chosen_position_kl,
                  rejected_position_kl, chosen_logps, rejected_logps)))"

text \<open>
  \<^verbatim>\<open>TDPO1Model.get_batch_metrics\<close>, which \<^verbatim>\<open>TDPO2Model\<close> inherits: \<^verbatim>\<open>self.loss\<close> is
  the loss of the class of \<open>self\<close>. The six tensors that
  \<^verbatim>\<open>self.forward(self.policy, batch)\<close> returns (or the exception it raises) are the
  argument \<open>forwarded\<close>: they carry the graph of the policy network. A metric is a
  tensor of shape \<open>(n,)\<close> or the scalar loss, which is modelled by its value.
\<close>

datatype model_class = TDPO1Model | TDPO2Model

definition loss_method ::
  "model_class \<Rightarrow> config \<Rightarrow> 'l tensor1 \<Rightarrow> 'l tensor1 \<Rightarrow> 'l tensor1 \<Rightarrow> 'l tensor1
     \<Rightarrow> error + ('l tensor1 \<times> 'l tensor1 \<times> 'l tensor1)" where
  "loss_method c = (case c of TDPO1Model \<Rightarrow> TDPO1_loss | TDPO2Model \<Rightarrow> TDPO2_loss)"

datatype 'l metric = Tensor "'l tensor1" | Scalar fval

definition mean :: "'l tensor1 \<Rightarrow> fval" where
  "mean xs = fdiv (sum_list (map data xs)) (real (length xs))"

definition greater_than :: "'l tracked \<Rightarrow> 'l tracked \<Rightarrow> 'l tracked" where
  "greater_than a b = \<lparr>data = (if data a > data b then 1 else 0), grad = (\<lambda>l. 0)\<rparr>"

text \<open>
  Modelled from the spec: \<^verbatim>\<open>detach_float_metrics\<close> of \<^verbatim>\<open>utils/util.py\<close>, which is
  not among the sources; it detaches every value of the mapping and casts it to float.
\<close>

definition detach_float_metrics :: "(string \<rightharpoonup> 'l metric) \<Rightarrow> (string \<rightharpoonup> 'l metric)" where
  "detach_float_metrics metrics =
     (\<lambda>name. case metrics name of
        None \<Rightarrow> None
      | Some (Tensor x) \<Rightarrow> Some (Tensor (t_detach x))
      | Some (Scalar x) \<Rightarrow> Some (Scalar x))"

definition get_batch_metrics ::
  "model_class \<Rightarrow> config \<Rightarrow> string option
     \<Rightarrow> error + ('l tensor1 \<times> 'l tensor1 \<times> 'l tensor1 \<times> 'l tensor1 \<times> 'l tensor1 \<times> 'l tensor1)
     \<Rightarrow> error + (fval \<times> (string \<rightharpoonup> 'l metric))" where
  "get_batch_metrics self_class config mode_arg forwarded =
     (let mode = (case mode_arg of None \<Rightarrow> mode config | Some m \<Rightarrow> m) in
      result_bind forwarded
        (\<lambda>(chosen_logps_margin, rejected_logps_margin, chosen_position_kl,
            rejected_position_kl, policy_chosen_logps, policy_rejected_logps).
      result_bind
        (loss_method self_class config chosen_logps_margin rejected_logps_margin
           chosen_position_kl rejected_position_kl)
        (\<lambda>(losses0, chosen_rewards, rejected_rewards).
          let losses = mean losses0 in
      result_bind (broadcast1 greater_than chosen_rewards (rev rejected_rewards))
        (\<lambda>reward_accuracies.
      result_bind (t_sub chosen_rewards rejected_rewards) (\<lambda>reward_margins.
      result_bind (t_sub chosen_position_kl rejected_position_kl) (\<lambda>kl_margin.
          let metrics = Map.empty
                (''rewards_'' @ mode @ ''/chosen'' \<mapsto> Tensor chosen_rewards);
              metrics = metrics(''rewards_'' @ mode @ ''/rejected'' \<mapsto> Tensor rejected_rewards);
              metrics = metrics(''rewards_'' @ mode @ ''/accuracies'' \<mapsto> Tensor reward_accuracies);
              metrics = metrics(''rewards_'' @ mode @ ''/margins'' \<mapsto> Tensor reward_margins);
              metrics = metrics(''logps_'' @ mode @ ''/rejected'' \<mapsto> Tensor policy_rejected_logps);
              metrics = metrics(''logps_'' @ mode @ ''/chosen'' \<mapsto> Tensor policy_chosen_logps);
              metrics = metrics(''loss/'' @ mode \<mapsto> Scalar losses);
              metrics = metrics(''kl_'' @ mode @ ''/chosen'' \<mapsto> Tensor chosen_position_kl);
              metrics = metrics(''kl_'' @ mode @ ''/rejected'' \<mapsto> Tensor rejected_position_kl);
              metrics = metrics(''kl_'' @ mode @ ''/margin'' \<mapsto> Tensor kl_margin);
              metrics = detach_float_metrics metrics
          in Inr (losses, metrics)))))))"

section \<open>Concrete tensors and tensor equality\<close>

text \<open>
  \<^verbatim>\<open>torch.tensor\<close> of a nested list, \<^verbatim>\<open>torch.full\<close>, and \<^verbatim>\<open>torch.equal\<close>: two
  tensors are equal when they have the same shape and the same entries inside it.
\<close>

definition tensor2_of :: "'a list list \<Rightarrow> 'a tensor2" where
  "tensor2_of xss =
     \<lparr>rows = length xss, cols = (case xss of [] \<Rightarrow> 0 | xs # _ \<Rightarrow> length xs),
      at2 = (\<lambda>b t. xss ! b ! t)\<rparr>"

definition tensor3_of :: "real list list list \<Rightarrow> tensor3" where
  "tensor3_of xsss =
     \<lparr>dim0 = length xsss,
      dim1 = (case xsss of [] \<Rightarrow> 0 | xss # _ \<Rightarrow> length xss),
      dim2 = (case xsss of [] \<Rightarrow> 0 | xss # _ \<Rightarrow> (case xss of [] \<Rightarrow> 0 | xs # _ \<Rightarrow> length xs)),
      at3 = (\<lambda>b t v. xsss ! b ! t ! v)\<rparr>"

definition full3 :: "nat \<Rightarrow> nat \<Rightarrow> nat \<Rightarrow> real \<Rightarrow> tensor3" where
  "full3 B L V c = \<lparr>dim0 = B, dim1 = L, dim2 = V, at3 = (\<lambda>b t v. c)\<rparr>"

definition tensor2_equal :: "'a tensor2 \<Rightarrow> 'a tensor2 \<Rightarrow> bool" where
  "tensor2_equal x y \<longleftrightarrow>
     rows x = rows y \<and> cols x = cols y \<and>
     (\<forall>b\<in>{..<rows x}. \<forall>t\<in>{..<cols x}. at2 x b t = at2 y b t)"

definition tensor3_equal :: "tensor3 \<Rightarrow> tensor3 \<Rightarrow> bool" where
  "tensor3_equal x y \<longleftrightarrow>
     dim0 x = dim0 y \<and> dim1 x = dim1 y \<and> dim2 x = dim2 y \<and>
     (\<forall>b\<in>{..<dim0 x}. \<forall>t\<in>{..<dim1 x}. \<forall>v\<in>{..<dim2 x}. at3 x b t v = at3 y b t v)"

section \<open>The first loss variant on values that need not be finite\<close>

text \<open>
  An entry of a float tensor can also be an infinity or not-a-number. The operations
  below follow IEEE 754 on those values and are exact on finite ones (the sign of
  zero is not kept). \<^verbatim>\<open>F.logsigmoid\<close> evaluates \<open>min x 0 - log1p (exp (- \<bar>x\<bar>))\<close>,
  which is 0 at plus infinity and minus infinity at minus infinity. A comparison
  with not-a-number is false.
\<close>

fun fneg :: "fval \<Rightarrow> fval" where
  "fneg (Fin x) = Fin (- x)"
| "fneg NaN = NaN"
| "fneg PosInf = NegInf"
| "fneg NegInf = PosInf"

fun fadd :: "fval \<Rightarrow> fval \<Rightarrow> fval" where
  "fadd (Fin x) (Fin y) = Fin (x + y)"
| "fadd NaN y = NaN"
| "fadd x NaN = NaN"
| "fadd PosInf NegInf = NaN"
| "fadd NegInf PosInf = NaN"
| "fadd PosInf y = PosInf"
| "fadd x PosInf = PosInf"
| "fadd NegInf y = NegInf"
| "fadd x NegInf = NegInf"

definition fsub :: "fval \<Rightarrow> fval \<Rightarrow> fval" where
  "fsub x y = fadd x (fneg y)"

fun fmul :: "fval \<Rightarrow> fval \<Rightarrow> fval" where
  "fmul (Fin x) (Fin y) = Fin (x * y)"
| "fmul NaN y = NaN"
| "fmul x NaN = NaN"
| "fmul (Fin x) PosInf = (if x = 0 then NaN else if 0 < x then PosInf else NegInf)"
| "fmul (Fin x) NegInf = (if x = 0 then NaN else if 0 < x then NegInf else PosInf)"
| "fmul PosInf (Fin y) = (if y = 0 then NaN else if 0 < y then PosInf else NegInf)"
| "fmul NegInf (Fin y) = (if y = 0 then NaN else if 0 < y then NegInf else PosInf)"
| "fmul PosInf PosInf = PosInf"
| "fmul PosInf NegInf = NegInf"
| "fmul NegInf PosInf = NegInf"
| "fmul NegInf NegInf = PosInf"

fun flogsigmoid :: "fval \<Rightarrow> fval" where
  "flogsigmoid (Fin x) = Fin (logsigmoid x)"
| "flogsigmoid NaN = NaN"
| "flogsigmoid PosInf = Fin 0"
| "flogsigmoid NegInf = NegInf"


text \<open>
  \<^verbatim>\<open>TDPO1Model.loss\<close> once more, on the values alone: \<^verbatim>\<open>detach\<close> does not change a
  value.
\<close>

definition TDPO1_loss_float ::
  "config \<Rightarrow> fval list \<Rightarrow> fval list \<Rightarrow> fval list \<Rightarrow> fval list
     \<Rightarrow> error + (fval list \<times> fval list \<times> fval list)" where
  "TDPO1_loss_float config chosen_logps_margin rejected_logps_margin
       chosen_position_kl rejected_position_kl =
     result_bind (broadcast1 fadd chosen_logps_margin chosen_position_kl) (\<lambda>chosen_values.
     result_bind (broadcast1 fadd rejected_logps_margin rejected_position_kl)
       (\<lambda>rejected_values.
     result_bind (broadcast1 fsub chosen_logps_margin rejected_logps_margin)
       (\<lambda>chosen_rejected_logps_margin.
     result_bind (broadcast1 fsub rejected_position_kl chosen_position_kl) (\<lambda>kl_diff.
     result_bind (broadcast1 fsub chosen_rejected_logps_margin kl_diff) (\<lambda>logits.
       let beta = beta (loss config);
           losses = map fneg (map flogsigmoid (map (fmul (Fin beta)) logits));
           chosen_rewards = map (fmul (Fin (loss_config.beta (loss config)))) chosen_values;
           rejected_rewards = map (fmul (Fin beta)) rejected_values
       in Inr (losses, chosen_rewards, rejected_rewards))))))"

section \<open>Basic facts\<close>

lemma ball_lessThan: "(\<forall>i\<in>{..<n}. P i) \<longleftrightarrow> (\<forall>i<n. P i)"
  by auto

lemma gather_labels_alt:
  "gather_labels x labels =
     (if rows labels \<le> dim0 x \<and> cols labels \<le> dim1 x \<and>
         (\<forall>b<rows labels. \<forall>t<cols labels. 0 \<le> at2 labels b t \<and> at2 labels b t < int (dim2 x))
      then Inr \<lparr>rows = rows labels, cols = cols labels,
                at2 = (\<lambda>b t. at3 x b t (nat (at2 labels b t)))\<rparr>
      else Inl RuntimeError)"
  by (simp only: gather_labels_def ball_lessThan)

lemma labels_index_alt:
  "labels_index V labels \<longleftrightarrow>
     (\<forall>b<rows labels. \<forall>t<cols labels - 1.
        0 \<le> shifted_label labels b t \<and> shifted_label labels b t < int V)"
  by (simp only: labels_index_def ball_lessThan)

lemma tensor2_equal_alt:
  "tensor2_equal x y \<longleftrightarrow>
     rows x = rows y \<and> cols x = cols y \<and>
     (\<forall>b<rows x. \<forall>t<cols x. at2 x b t = at2 y b t)"
  by (simp only: tensor2_equal_def ball_lessThan)

lemma tensor3_equal_alt:
  "tensor3_equal x y \<longleftrightarrow>
     dim0 x = dim0 y \<and> dim1 x = dim1 y \<and> dim2 x = dim2 y \<and>
     (\<forall>b<dim0 x. \<forall>t<dim1 x. \<forall>v<dim2 x. at3 x b t v = at3 y b t v)"
  by (simp only: tensor3_equal_def ball_lessThan)

lemma broadcast1_same_length:
  "length xs = length ys \<Longrightarrow> broadcast1 f xs ys = Inr (map2 f xs ys)"
  by (simp add: broadcast1_def)

lemma result_bind_Inr: "result_bind (Inr x) f = f x"
  by (simp add: result_bind_def)

lemma result_bind_Inl: "result_bind (Inl e) f = Inl e"
  by (simp add: result_bind_def)

section \<open>The aligner in closed form\<close>

lemma bidx_less: "i < d \<Longrightarrow> bidx d i = i"
  by (auto simp: bidx_def)

lemma bdim_same: "bdim n n = Some n"
  by (simp add: bdim_def)

lemma bdim_bdim: "bdim m n = Some d \<Longrightarrow> bdim m d = Some d"
  by (auto simp: bdim_def split: if_splits)

lemma dims_simps:
  "dim0 (log_softmax x) = dim0 x" "dim1 (log_softmax x) = dim1 x" "dim2 (log_softmax x) = dim2 x"
  "dim0 (softmax x) = dim0 x" "dim1 (softmax x) = dim1 x" "dim2 (softmax x) = dim2 x"
  "dim0 (log_t x) = dim0 x" "dim1 (log_t x) = dim1 x" "dim2 (log_t x) = dim2 x"
  "dim0 (drop_last_position x) = dim0 x" "dim1 (drop_last_position x) = dim1 x - 1"
  "dim2 (drop_last_position x) = dim2 x"
  "rows (drop_first_label l) = rows l" "cols (drop_first_label l) = cols l - 1"
  "rows (map_tensor2 g l) = rows l" "cols (map_tensor2 g l) = cols l"
  "rows (sum_last3 x) = dim0 x" "cols (sum_last3 x) = dim1 x"
  by (simp_all add: log_softmax_def softmax_def log_t_def drop_last_position_def
      drop_first_label_def map_tensor2_def sum_last3_def)

lemma at_simps:
  "at2 (drop_first_label l) b t = at2 l b (Suc t)"
  "at2 (map_tensor2 g l) b t = g (at2 l b t)"
  "at2 (sum_last3 x) b t = (\<Sum>v<dim2 x. at3 x b t v)"
  "at3 (log_softmax (drop_last_position x)) = at3 (log_softmax x)"
  "at3 (softmax (drop_last_position x)) = at3 (softmax x)"
  "at3 (log_t (softmax (drop_last_position x))) = at3 (log_t (softmax x))"
  by (simp_all add: drop_first_label_def map_tensor2_def sum_last3_def
      log_softmax_def softmax_def log_t_def drop_last_position_def)

lemma broadcast3_vocab:
  assumes "dim0 a = dim0 b" "dim1 a = dim1 b" "bdim (dim2 a) (dim2 b) = Some d"
  shows "\<exists>c. broadcast3 f a b = Inr c \<and> dim0 c = dim0 a \<and> dim1 c = dim1 a \<and> dim2 c = d \<and>
     (\<forall>i<dim0 a. \<forall>j<dim1 a. \<forall>k.
        at3 c i j k = f (at3 a i j (bidx (dim2 a) k)) (at3 b i j (bidx (dim2 b) k)))"
  using assms by (simp add: broadcast3_def bdim_same bidx_less)

lemma broadcast3_fails:
  assumes "bdim (dim2 a) (dim2 b) = None"
  shows "broadcast3 f a b = Inl RuntimeError"
  using assms by (simp add: broadcast3_def split: option.splits)

lemma broadcast2_same:
  assumes "rows a = rows b" "cols a = cols b"
  shows "\<exists>c. broadcast2 f a b = Inr c \<and> rows c = rows a \<and> cols c = cols a \<and>
     (\<forall>i<rows a. \<forall>j<cols a. at2 c i j = f (at2 a i j) (at2 b i j))"
  using assms by (simp add: broadcast2_def bdim_same bidx_less)

lemma gather_labels_ok:
  assumes "rows l = dim0 x" "cols l = dim1 x"
    "\<forall>b<rows l. \<forall>t<cols l. 0 \<le> at2 l b t \<and> at2 l b t < int (dim2 x)"
  shows "\<exists>c. gather_labels x l = Inr c \<and> rows c = rows l \<and> cols c = cols l \<and>
     (\<forall>i j. at2 c i j = at3 x i j (nat (at2 l i j)))"
  using assms by (simp add: gather_labels_alt)

lemma gather_labels_fails:
  assumes "\<not> (\<forall>b<rows l. \<forall>t<cols l. 0 \<le> at2 l b t \<and> at2 l b t < int (dim2 x))"
  shows "gather_labels x l = Inl RuntimeError"
  using assms by (simp add: gather_labels_alt)


lemma map2_same_list: "map2 f (map g xs) (map h xs) = map (\<lambda>x. f (g x) (h x)) xs"
  by (induction xs) auto

lemma labels_index_gather:
  "labels_index V labels \<longleftrightarrow>
   (\<forall>b<rows (map_tensor2 (\<lambda>label. if label = - 100 then 0 else label) (drop_first_label labels)).
    \<forall>t<cols (map_tensor2 (\<lambda>label. if label = - 100 then 0 else label) (drop_first_label labels)).
      0 \<le> at2 (map_tensor2 (\<lambda>label. if label = - 100 then 0 else label) (drop_first_label labels)) b t \<and>
      at2 (map_tensor2 (\<lambda>label. if label = - 100 then 0 else label) (drop_first_label labels)) b t < int V)"
  by (simp add: labels_index_alt shifted_label_def dims_simps at_simps)

lemma tdpo_assert_fails:
  "\<not> shape_precondition logits0 reference_logits0 labels0 \<Longrightarrow>
   tdpo_get_batch_logps logits0 reference_logits0 labels0 average_log_prob = Inl AssertionError"
  by (auto simp: tdpo_get_batch_logps_def shape_precondition_def)

lemma tdpo_broadcast_fails:
  assumes pre: "shape_precondition logits0 reference_logits0 labels0"
    and bd: "bdim (dim2 reference_logits0) (dim2 logits0) = None"
  shows "tdpo_get_batch_logps logits0 reference_logits0 labels0 average_log_prob = Inl RuntimeError"
proof -
  have "broadcast3 (-) (log_t (softmax (drop_last_position reference_logits0)))
          (log_softmax (drop_last_position logits0)) = Inl RuntimeError"
    by (rule broadcast3_fails) (simp add: dims_simps bd)
  with pre show ?thesis
    by (simp add: tdpo_get_batch_logps_def shape_precondition_def Let_def result_bind_Inl)
qed

lemma tdpo_returns:
  assumes pre: "shape_precondition logits0 reference_logits0 labels0"
    and bd: "bdim (dim2 reference_logits0) (dim2 logits0) = Some d"
    and l1: "labels_index (dim2 logits0) labels0"
    and l2: "labels_index (dim2 reference_logits0) labels0"
  shows "tdpo_get_batch_logps logits0 reference_logits0 labels0 average_log_prob =
    Inr (map (\<lambda>b. aggregate average_log_prob
                (margin_sum logits0 reference_logits0 labels0 b) (mask_count labels0 b))
           [0..<rows labels0],
         map (\<lambda>b. aggregate average_log_prob
                (kl_sum d logits0 reference_logits0 labels0 b) (mask_count labels0 b))
           [0..<rows labels0],
         map (\<lambda>b. aggregate average_log_prob
                (logp_sum logits0 labels0 b) (mask_count labels0 b))
           [0..<rows labels0])"
proof -
  let ?B = "rows labels0" and ?L = "cols labels0 - 1"
  let ?labels1 = "drop_first_label labels0"
  let ?mask = "map_tensor2 (\<lambda>label. label \<noteq> - 100) ?labels1"
  let ?labels = "map_tensor2 (\<lambda>label. if label = - 100 then 0 else label) ?labels1"
  let ?lp = "log_softmax (drop_last_position logits0)"
  let ?rp = "softmax (drop_last_position reference_logits0)"
  let ?rlp = "log_t ?rp"
  from pre have sh: "dim0 logits0 = ?B" "dim1 logits0 = cols labels0"
    "dim0 reference_logits0 = ?B" "dim1 reference_logits0 = cols labels0"
    by (simp_all add: shape_precondition_def)
  obtain diff where diff: "broadcast3 (-) ?rlp ?lp = Inr diff"
    "dim0 diff = ?B" "dim1 diff = ?L" "dim2 diff = d"
    "\<And>i j k. i < ?B \<Longrightarrow> j < ?L \<Longrightarrow>
       at3 diff i j k = at3 ?rlp i j (bidx (dim2 reference_logits0) k)
                        - at3 ?lp i j (bidx (dim2 logits0) k)"
    using broadcast3_vocab[of ?rlp ?lp d "(-)"] bd sh by (auto simp: dims_simps)
  have bd2: "bdim (dim2 ?rp) (dim2 diff) = Some d"
    using bd diff(4) by (simp add: dims_simps bdim_bdim)
  obtain weighted where weighted: "broadcast3 (*) ?rp diff = Inr weighted"
    "dim0 weighted = ?B" "dim1 weighted = ?L" "dim2 weighted = d"
    "\<And>i j k. i < ?B \<Longrightarrow> j < ?L \<Longrightarrow>
       at3 weighted i j k = at3 ?rp i j (bidx (dim2 reference_logits0) k)
                        * at3 diff i j (bidx d k)"
    using broadcast3_vocab[of ?rp diff d "(*)"] bd2 diff(2,3,4) sh by (auto simp: dims_simps)
  have kl: "\<And>i j. i < ?B \<Longrightarrow> j < ?L \<Longrightarrow>
      at2 (sum_last3 weighted) i j = position_kl d logits0 reference_logits0 i j"
    by (simp add: at_simps weighted diff position_kl_def bidx_less)
  obtain gathered where gathered: "gather_labels ?lp ?labels = Inr gathered"
    "rows gathered = ?B" "cols gathered = ?L"
    "\<And>i j. at2 gathered i j = at3 ?lp i j (nat (at2 ?labels i j))"
    using gather_labels_ok[of ?labels ?lp] l1 sh
    by (auto simp: dims_simps labels_index_gather)
  obtain ptl where ptl: "broadcast2 mul_mask gathered ?mask = Inr ptl"
    "rows ptl = ?B" "cols ptl = ?L"
    "\<And>i j. i < ?B \<Longrightarrow> j < ?L \<Longrightarrow> at2 ptl i j = token_logp logits0 labels0 i j"
    using broadcast2_same[of gathered ?mask mul_mask] gathered
    by (auto simp: dims_simps at_simps token_logp_def shifted_label_def shifted_mask_def)
  obtain rgathered where rgathered: "gather_labels ?rlp ?labels = Inr rgathered"
    "rows rgathered = ?B" "cols rgathered = ?L"
    "\<And>i j. at2 rgathered i j = at3 ?rlp i j (nat (at2 ?labels i j))"
    using gather_labels_ok[of ?labels ?rlp] l2 sh
    by (auto simp: dims_simps labels_index_gather)
  obtain prtl where prtl: "broadcast2 mul_mask rgathered ?mask = Inr prtl"
    "rows prtl = ?B" "cols prtl = ?L"
    "\<And>i j. i < ?B \<Longrightarrow> j < ?L \<Longrightarrow>
       at2 prtl i j = reference_token_logp reference_logits0 labels0 i j"
    using broadcast2_same[of rgathered ?mask mul_mask] rgathered
    by (auto simp: dims_simps at_simps reference_token_logp_def shifted_label_def
        shifted_mask_def)
  obtain margin where margin: "broadcast2 (-) ptl prtl = Inr margin"
    "rows margin = ?B" "cols margin = ?L"
    "\<And>i j. i < ?B \<Longrightarrow> j < ?L \<Longrightarrow>
       at2 margin i j = token_logp logits0 labels0 i j
                        - reference_token_logp reference_logits0 labels0 i j"
    using broadcast2_same[of ptl prtl "(-)"] ptl prtl by auto
  obtain mm where mm: "broadcast2 mul_mask margin ?mask = Inr mm"
    "rows mm = ?B" "cols mm = ?L"
    "\<And>i j. i < ?B \<Longrightarrow> j < ?L \<Longrightarrow>
       at2 mm i j = mul_mask (token_logp logits0 labels0 i j
                        - reference_token_logp reference_logits0 labels0 i j)
                      (shifted_mask labels0 i j)"
    using broadcast2_same[of margin ?mask mul_mask] margin
    by (auto simp: dims_simps at_simps shifted_mask_def)
  obtain mk where mk: "broadcast2 mul_mask (sum_last3 weighted) ?mask = Inr mk"
    "rows mk = ?B" "cols mk = ?L"
    "\<And>i j. i < ?B \<Longrightarrow> j < ?L \<Longrightarrow>
       at2 mk i j = mul_mask (position_kl d logits0 reference_logits0 i j)
                      (shifted_mask labels0 i j)"
    using broadcast2_same[of "sum_last3 weighted" ?mask mul_mask] weighted(2,3) kl
    by (auto simp: dims_simps at_simps shifted_mask_def)
  obtain ml where ml: "broadcast2 mul_mask ptl ?mask = Inr ml"
    "rows ml = ?B" "cols ml = ?L"
    "\<And>i j. i < ?B \<Longrightarrow> j < ?L \<Longrightarrow>
       at2 ml i j = mul_mask (token_logp logits0 labels0 i j) (shifted_mask labels0 i j)"
    using broadcast2_same[of ptl ?mask mul_mask] ptl
    by (auto simp: dims_simps at_simps shifted_mask_def)
  have s1: "sum_last2 mm = map (margin_sum logits0 reference_logits0 labels0) [0..<?B]"
    using mm by (simp add: sum_last2_def margin_sum_def)
  have s2: "sum_last2 mk = map (kl_sum d logits0 reference_logits0 labels0) [0..<?B]"
    using mk by (simp add: sum_last2_def kl_sum_def)
  have s3: "sum_last2 ml = map (logp_sum logits0 labels0) [0..<?B]"
    using ml by (simp add: sum_last2_def logp_sum_def)
  have cnt: "count_last2 ?mask = map (mask_count labels0) [0..<?B]"
    by (simp add: count_last2_def mask_count_def dims_simps at_simps shifted_mask_def)
  have dv: "\<And>f. broadcast1 fdiv (map f [0..<?B]) (map (mask_count labels0) [0..<?B])
      = Inr (map (\<lambda>b. fdiv (f b) (mask_count labels0 b)) [0..<?B])"
    by (simp add: broadcast1_same_length map2_same_list)
  show ?thesis
    using pre
    by (simp add: tdpo_get_batch_logps_def shape_precondition_def Let_def result_bind_Inr
        diff(1) weighted(1) gathered(1) ptl(1) rgathered(1) prtl(1) margin(1) mm(1) mk(1)
        ml(1) s1 s2 s3 cnt dv aggregate_def)
qed

section \<open>Facts about the loss variants\<close>

lemma map2_nth_upt:
  "length xs = n \<Longrightarrow> length ys = n \<Longrightarrow> map2 f xs ys = map (\<lambda>i. f (xs ! i) (ys ! i)) [0..<n]"
  by (rule nth_equalityI) auto

lemma broadcast1_nth:
  "length xs = n \<Longrightarrow> length ys = n \<Longrightarrow>
   broadcast1 f xs ys = Inr (map (\<lambda>i. f (xs ! i) (ys ! i)) [0..<n])"
  by (simp add: broadcast1_def map2_nth_upt)

lemma TDPO1_loss_entries:
  assumes "length cm = n" "length rm = n" "length ck = n" "length rk = n"
  shows "TDPO1_loss cfg cm rm ck rk =
    Inr (map (\<lambda>i. tr_neg (tr_logsigmoid (tr_scale (beta (loss cfg))
                 (tr_sub (tr_sub (cm ! i) (rm ! i)) (tr_sub (rk ! i) (ck ! i)))))) [0..<n],
         map (\<lambda>i. tr_scale (beta (loss cfg)) (tr_detach (tr_add (cm ! i) (ck ! i)))) [0..<n],
         map (\<lambda>i. tr_scale (beta (loss cfg)) (tr_detach (tr_add (rm ! i) (rk ! i)))) [0..<n])"
  using assms
  by (simp add: TDPO1_loss_def t_add_def t_sub_def broadcast1_nth[of _ n] result_bind_Inr
      t_neg_def t_logsigmoid_def t_scale_def t_detach_def Let_def)

lemma TDPO2_loss_entries:
  assumes "length cm = n" "length rm = n" "length ck = n" "length rk = n"
  shows "TDPO2_loss cfg cm rm ck rk =
    Inr (map (\<lambda>i. tr_neg (tr_logsigmoid (tr_scale (beta (loss cfg))
                 (tr_sub (tr_sub (cm ! i) (rm ! i))
                    (tr_scale (alpha (loss cfg)) (tr_sub (rk ! i) (tr_detach (ck ! i)))))))) [0..<n],
         map (\<lambda>i. tr_scale (beta (loss cfg)) (tr_detach (tr_add (cm ! i) (ck ! i)))) [0..<n],
         map (\<lambda>i. tr_scale (beta (loss cfg)) (tr_detach (tr_add (rm ! i) (rk ! i)))) [0..<n])"
  using assms
  by (simp add: TDPO2_loss_def t_add_def t_sub_def broadcast1_nth[of _ n] result_bind_Inr
      t_neg_def t_logsigmoid_def t_scale_def t_detach_def Let_def)




lemma logsigmoid_alt: "logsigmoid x = - ln (1 + exp (- x))"
  by (simp add: logsigmoid_def sigmoid_def ln_div add_pos_pos)

lemma logsigmoid_deriv: "(logsigmoid has_real_derivative (1 - sigmoid x)) (at x)"
proof -
  have pos: "0 < 1 + exp (- x)" by (simp add: add_pos_pos)
  then have ne: "1 + exp (- x) \<noteq> 0" by simp
  have "((\<lambda>x. - ln (1 + exp (- x))) has_real_derivative (exp (- x) / (1 + exp (- x)))) (at x)"
    using pos by (auto intro!: derivative_eq_intros)
  moreover have "exp (- x) / (1 + exp (- x)) = 1 - sigmoid x"
    using ne by (simp add: sigmoid_def field_simps)
  moreover have "logsigmoid = (\<lambda>x. - ln (1 + exp (- x)))"
    by (rule ext) (rule logsigmoid_alt)
  ultimately show ?thesis by simp
qed

lemma data_detach: "data (tr_detach x) = data x"
  by (simp add: tr_detach_def)

lemma hd_detach: "length ck = Suc 0 \<Longrightarrow> data (hd (map tr_detach ck)) = data (hd ck)"
  by (cases ck) (simp_all add: tr_detach_def)

lemma hd_map_zip1:
  "length xs = Suc 0 \<Longrightarrow> length ys = Suc 0 \<Longrightarrow> hd (map f (zip xs ys)) = f (hd xs, hd ys)"
  by (cases xs; cases ys) simp_all

lemma hd_map_zip1':
  "length xs = Suc 0 \<Longrightarrow> Suc 0 = length ys \<Longrightarrow> hd (map f (zip xs ys)) = f (hd xs, hd ys)"
  by (metis hd_map_zip1)

lemma forward_values_alpha_one:
  assumes "alpha (loss cfg) = 1"
  shows "forward_values (TDPO1_loss cfg cm rm ck rk) = forward_values (TDPO2_loss cfg cm rm ck rk)"
  using assms
  apply (simp add: TDPO1_loss_def TDPO2_loss_def t_add_def t_sub_def Let_def)
  apply (auto simp: broadcast1_def result_bind_def forward_values_def t_neg_def t_logsigmoid_def t_scale_def t_detach_def
       tr_neg_def tr_logsigmoid_def tr_scale_def tr_sub_def tr_add_def o_def split_def zip_map2 zip_map1 hd_detach hd_map data_detach hd_map_zip1 hd_map_zip1')
  done

lemmas tr_simps = tr_neg_def tr_logsigmoid_def tr_scale_def tr_sub_def tr_add_def tr_detach_def

lemma fsub_Fin: "fsub (Fin x) (Fin y) = Fin (x - y)"
  by (simp add: fsub_def)

lemma TDPO1_loss_float_finite:
  assumes "length cm = n" "length rm = n" "length ck = n" "length rk = n"
  shows "TDPO1_loss_float cfg (map (\<lambda>x. Fin (data x)) cm) (map (\<lambda>x. Fin (data x)) rm)
           (map (\<lambda>x. Fin (data x)) ck) (map (\<lambda>x. Fin (data x)) rk) =
         (case forward_values (TDPO1_loss cfg cm rm ck rk) of
            Inl e \<Rightarrow> Inl e
          | Inr (losses, chosen_rewards, rejected_rewards) \<Rightarrow>
              Inr (map Fin losses, map Fin chosen_rewards, map Fin rejected_rewards))"
  using assms
  by (simp add: TDPO1_loss_entries[OF assms] forward_values_def TDPO1_loss_float_def
      broadcast1_nth[of _ n] result_bind_Inr Let_def tr_simps fsub_Fin o_def)

section \<open>Claims about the loss variants\<close>

text \<open>
  C1. For input vectors \<open>chosen_margin\<close>, \<open>rejected_margin\<close>, \<open>chosen_kl\<close>,
  \<open>rejected_kl\<close> of equal length \<open>n\<close>, \<^verbatim>\<open>TDPO1Model.loss\<close> returns three vectors of
  length \<open>n\<close>; entry \<open>i\<close> of the loss is
  \<open>- logsigmoid (beta * ((chosen_margin - rejected_margin) - (rejected_kl - chosen_kl)))\<close>,
  the rewards are \<open>beta * (chosen_margin + chosen_kl)\<close> and
  \<open>beta * (rejected_margin + rejected_kl)\<close>, and both rewards are cut off the graph:
  their derivative with respect to every leaf is zero. This holds for every \<open>beta\<close>, a
  positive one in particular.
\<close>

theorem TDPO1_loss_formula:
  assumes "length chosen_margin = n" "length rejected_margin = n"
    "length chosen_kl = n" "length rejected_kl = n"
  shows "\<exists>losses chosen_rewards rejected_rewards.
    TDPO1_loss cfg chosen_margin rejected_margin chosen_kl rejected_kl =
      Inr (losses, chosen_rewards, rejected_rewards) \<and>
    length losses = n \<and> length chosen_rewards = n \<and> length rejected_rewards = n \<and>
    (\<forall>i<n.
       data (losses ! i) =
         - logsigmoid (beta (loss cfg) *
             ((data (chosen_margin ! i) - data (rejected_margin ! i)) -
              (data (rejected_kl ! i) - data (chosen_kl ! i)))) \<and>
       data (chosen_rewards ! i) =
         beta (loss cfg) * (data (chosen_margin ! i) + data (chosen_kl ! i)) \<and>
       data (rejected_rewards ! i) =
         beta (loss cfg) * (data (rejected_margin ! i) + data (rejected_kl ! i)) \<and>
       (\<forall>l. grad (chosen_rewards ! i) l = 0) \<and>
       (\<forall>l. grad (rejected_rewards ! i) l = 0))"
  by (simp add: TDPO1_loss_entries[OF assms] tr_simps)

theorem TDPO1_loss_formula_witness:
  "\<exists>losses chosen_rewards rejected_rewards.
    TDPO1_loss \<lparr>loss = \<lparr>beta = 2, alpha = 1\<rparr>, mode = ''train''\<rparr>
      (leaf_tensor ChosenMargin [3, 1]) (leaf_tensor RejectedMargin [1, 1])
      (leaf_tensor ChosenKL [5, 2]) (leaf_tensor RejectedKL [4, 7]) =
      Inr (losses, chosen_rewards, rejected_rewards) \<and>
    data (losses ! 1) = - logsigmoid (- 10) \<and>
    data (chosen_rewards ! 1) = 6 \<and>
    data (rejected_rewards ! 1) = 16 \<and>
    grad (chosen_rewards ! 1) (ChosenKL 1) = 0"
  using TDPO1_loss_formula[of "leaf_tensor ChosenMargin [3, 1]" 2
      "leaf_tensor RejectedMargin [1, 1]" "leaf_tensor ChosenKL [5, 2]"
      "leaf_tensor RejectedKL [4, 7]" "\<lparr>loss = \<lparr>beta = 2, alpha = 1\<rparr>, mode = ''train''\<rparr>"]
  by (auto simp: leaf_tensor_def)

text \<open>
  C2. In \<^verbatim>\<open>TDPO2Model.loss\<close> the logit is
  \<open>margin_diff - alpha * (rejected_kl - detach chosen_kl)\<close>: the forward value uses the
  value of \<open>chosen_kl\<close>, while the derivative of the loss with respect to any leaf is
  built from the derivatives of \<open>chosen_margin\<close>, \<open>rejected_margin\<close> and \<open>rejected_kl\<close>
  only. The derivative of \<open>chosen_kl\<close> does not occur in it, so a leaf that reaches the
  loss through \<open>chosen_kl\<close> alone receives gradient zero.
\<close>

theorem TDPO2_loss_gradient_isolation:
  assumes "length chosen_margin = n" "length rejected_margin = n"
    "length chosen_kl = n" "length rejected_kl = n"
  shows "\<exists>losses chosen_rewards rejected_rewards.
    TDPO2_loss cfg chosen_margin rejected_margin chosen_kl rejected_kl =
      Inr (losses, chosen_rewards, rejected_rewards) \<and>
    length losses = n \<and>
    (\<forall>i<n.
       data (losses ! i) =
         - logsigmoid (beta (loss cfg) *
             ((data (chosen_margin ! i) - data (rejected_margin ! i)) -
              alpha (loss cfg) * (data (rejected_kl ! i) - data (chosen_kl ! i)))) \<and>
       (\<forall>l. grad (losses ! i) l =
          - ((1 - sigmoid (beta (loss cfg) *
               ((data (chosen_margin ! i) - data (rejected_margin ! i)) -
                alpha (loss cfg) * (data (rejected_kl ! i) - data (chosen_kl ! i))))) *
             (beta (loss cfg) *
               ((grad (chosen_margin ! i) l - grad (rejected_margin ! i) l) -
                alpha (loss cfg) * grad (rejected_kl ! i) l)))) \<and>
       (\<forall>l. grad (chosen_margin ! i) l = 0 \<and> grad (rejected_margin ! i) l = 0 \<and>
            grad (rejected_kl ! i) l = 0 \<longrightarrow> grad (losses ! i) l = 0))"
  by (simp add: TDPO2_loss_entries[OF assms] tr_simps)

theorem TDPO2_loss_gradient_isolation_witness:
  "\<exists>losses chosen_rewards rejected_rewards.
    TDPO2_loss \<lparr>loss = \<lparr>beta = 2, alpha = 3\<rparr>, mode = ''train''\<rparr>
      (leaf_tensor ChosenMargin [3, 1]) (leaf_tensor RejectedMargin [1, 1])
      (leaf_tensor ChosenKL [5, 2]) (leaf_tensor RejectedKL [4, 7]) =
      Inr (losses, chosen_rewards, rejected_rewards) \<and>
    data (losses ! 0) = - logsigmoid 10 \<and>
    grad (losses ! 0) (ChosenKL 0) = 0 \<and>
    grad (losses ! 0) (RejectedKL 0) = 6 * (1 - sigmoid 10) \<and>
    grad (losses ! 0) (ChosenMargin 0) = - (2 * (1 - sigmoid 10))"
  using TDPO2_loss_gradient_isolation[of "leaf_tensor ChosenMargin [3, 1]" 2
      "leaf_tensor RejectedMargin [1, 1]" "leaf_tensor ChosenKL [5, 2]"
      "leaf_tensor RejectedKL [4, 7]" "\<lparr>loss = \<lparr>beta = 2, alpha = 3\<rparr>, mode = ''train''\<rparr>"]
  by (auto simp: leaf_tensor_def)




text \<open>
  C8. The claim that the two variants, called with \<open>alpha = 1\<close> and compared on forward
  values only, differ on some input does not hold: with \<open>alpha = 1\<close> the forward values
  of \<^verbatim>\<open>TDPO1Model.loss\<close> and \<^verbatim>\<open>TDPO2Model.loss\<close> (losses and both rewards, or the
  exception raised) coincide on every input, since \<^verbatim>\<open>detach\<close> does not change a value.
\<close>

theorem variants_coincide_at_alpha_one:
  "\<not> (\<exists>(cfg :: config) (chosen_margin :: leaf tensor1) rejected_margin chosen_kl rejected_kl.
        alpha (loss cfg) = 1 \<and>
        forward_values (TDPO1_loss cfg chosen_margin rejected_margin chosen_kl rejected_kl) \<noteq>
        forward_values (TDPO2_loss cfg chosen_margin rejected_margin chosen_kl rejected_kl))"
  using forward_values_alpha_one by blast

text \<open>
  C8, as amended. Called with \<open>alpha = 1\<close> and compared on forward values, the two
  variants coincide on every input: \<^verbatim>\<open>TDPO1Model.loss\<close> and \<^verbatim>\<open>TDPO2Model.loss\<close> return
  the same loss values and the same reward values, or raise the same exception. The
  logit of the second variant is that of the first with the divergence term weighted
  by \<open>alpha\<close>, and \<^verbatim>\<open>detach\<close> does not change a forward value.
\<close>

theorem variants_forward_values_at_alpha_one:
  assumes "alpha (loss cfg) = 1"
  shows "forward_values (TDPO1_loss cfg chosen_margin rejected_margin chosen_kl rejected_kl) =
         forward_values (TDPO2_loss cfg chosen_margin rejected_margin chosen_kl rejected_kl)"
  using assms by (rule forward_values_alpha_one)

theorem variants_forward_values_at_alpha_one_witness:
  "forward_values
     (TDPO1_loss \<lparr>loss = \<lparr>beta = 2, alpha = 1\<rparr>, mode = ''train''\<rparr>
        (leaf_tensor ChosenMargin [3]) (leaf_tensor RejectedMargin [1])
        (leaf_tensor ChosenKL [5]) (leaf_tensor RejectedKL [4])) =
     Inr ([- logsigmoid 6], [16], [10]) \<and>
   forward_values
     (TDPO2_loss \<lparr>loss = \<lparr>beta = 2, alpha = 1\<rparr>, mode = ''train''\<rparr>
        (leaf_tensor ChosenMargin [3]) (leaf_tensor RejectedMargin [1])
        (leaf_tensor ChosenKL [5]) (leaf_tensor RejectedKL [4])) =
     Inr ([- logsigmoid 6], [16], [10])"
proof -
  let ?cfg = "\<lparr>loss = \<lparr>beta = 2, alpha = 1\<rparr>, mode = ''train''\<rparr>"
  have one: "alpha (loss ?cfg) = 1" by simp
  have v1: "forward_values
     (TDPO1_loss ?cfg (leaf_tensor ChosenMargin [3]) (leaf_tensor RejectedMargin [1])
        (leaf_tensor ChosenKL [5]) (leaf_tensor RejectedKL [4])) =
     Inr ([- logsigmoid 6], [16], [10])"
    by (simp add: TDPO1_loss_entries[of _ 1] forward_values_def leaf_tensor_def tr_simps)
  with variants_forward_values_at_alpha_one[OF one, of "leaf_tensor ChosenMargin [3]"
      "leaf_tensor RejectedMargin [1]" "leaf_tensor ChosenKL [5]" "leaf_tensor RejectedKL [4]"]
  show ?thesis by simp
qed

section \<open>Claims about the batch orchestration\<close>

lemma loss_method_entries:
  assumes "length cm = n" "length rm = n" "length ck = n" "length rk = n"
  shows "\<exists>losses. loss_method cls cfg cm rm ck rk =
    Inr (losses,
         map (\<lambda>i. tr_scale (beta (loss cfg)) (tr_detach (tr_add (cm ! i) (ck ! i)))) [0..<n],
         map (\<lambda>i. tr_scale (beta (loss cfg)) (tr_detach (tr_add (rm ! i) (rk ! i)))) [0..<n])"
  by (cases cls)
    (simp_all add: loss_method_def TDPO1_loss_entries[OF assms] TDPO2_loss_entries[OF assms])

lemma detach_nth: "i < length xs \<Longrightarrow> t_detach xs ! i = tr_detach (xs ! i)"
  by (simp add: t_detach_def)

text \<open>
  C5. For a batch of \<open>n\<close> paired examples, \<^verbatim>\<open>get_batch_metrics\<close> of either model class
  stores under \<^verbatim>\<open>rewards_{mode}/accuracies\<close> a vector of length \<open>n\<close> whose entry \<open>i\<close> is 1
  when the chosen reward at \<open>i\<close> is greater than the rejected reward at \<open>n - 1 - i\<close>,
  and 0 otherwise: the rejected rewards are compared in reversed order. The rewards
  are those stored under \<^verbatim>\<open>rewards_{mode}/chosen\<close> and \<^verbatim>\<open>rewards_{mode}/rejected\<close>.
\<close>

theorem reward_accuracy_reversed_pairing:
  assumes "length chosen_margin = n" "length rejected_margin = n"
    "length chosen_kl = n" "length rejected_kl = n"
  shows "\<exists>losses metrics accuracies chosen_rewards rejected_rewards.
     get_batch_metrics cls cfg mode_arg
       (Inr (chosen_margin, rejected_margin, chosen_kl, rejected_kl,
             policy_chosen_logps, policy_rejected_logps)) = Inr (losses, metrics) \<and>
     metrics (''rewards_'' @ (case mode_arg of None \<Rightarrow> mode cfg | Some m \<Rightarrow> m) @ ''/accuracies'')
       = Some (Tensor accuracies) \<and>
     metrics (''rewards_'' @ (case mode_arg of None \<Rightarrow> mode cfg | Some m \<Rightarrow> m) @ ''/chosen'')
       = Some (Tensor chosen_rewards) \<and>
     metrics (''rewards_'' @ (case mode_arg of None \<Rightarrow> mode cfg | Some m \<Rightarrow> m) @ ''/rejected'')
       = Some (Tensor rejected_rewards) \<and>
     length accuracies = n \<and> length chosen_rewards = n \<and> length rejected_rewards = n \<and>
     (\<forall>i<n.
        data (accuracies ! i) =
          (if data (chosen_rewards ! i) > data (rejected_rewards ! (n - 1 - i)) then 1 else 0) \<and>
        data (chosen_rewards ! i) =
          beta (loss cfg) * (data (chosen_margin ! i) + data (chosen_kl ! i)) \<and>
        data (rejected_rewards ! i) =
          beta (loss cfg) * (data (rejected_margin ! i) + data (rejected_kl ! i)))"
proof -
  let ?cr = "map (\<lambda>i. tr_scale (beta (loss cfg))
      (tr_detach (tr_add (chosen_margin ! i) (chosen_kl ! i)))) [0..<n]"
  let ?rr = "map (\<lambda>i. tr_scale (beta (loss cfg))
      (tr_detach (tr_add (rejected_margin ! i) (rejected_kl ! i)))) [0..<n]"
  obtain losses where lm: "loss_method cls cfg chosen_margin rejected_margin chosen_kl rejected_kl
      = Inr (losses, ?cr, ?rr)"
    using loss_method_entries[OF assms] by blast
  have acc: "broadcast1 greater_than ?cr (rev ?rr)
      = Inr (map (\<lambda>i. greater_than (?cr ! i) (rev ?rr ! i)) [0..<n])"
    by (rule broadcast1_nth) simp_all
  have m1: "t_sub ?cr ?rr = Inr (map (\<lambda>i. tr_sub (?cr ! i) (?rr ! i)) [0..<n])"
    unfolding t_sub_def by (rule broadcast1_nth) simp_all
  have m2: "t_sub chosen_kl rejected_kl
      = Inr (map (\<lambda>i. tr_sub (chosen_kl ! i) (rejected_kl ! i)) [0..<n])"
    unfolding t_sub_def by (rule broadcast1_nth) (simp_all add: assms)
  show ?thesis
    unfolding get_batch_metrics_def Let_def result_bind_Inr split_conv lm acc m1 m2
    by (simp add: detach_float_metrics_def detach_nth rev_nth greater_than_def tr_simps
        t_detach_def del: map_map)
qed


theorem reward_accuracy_reversed_pairing_witness:
  "\<exists>losses metrics accuracies.
     get_batch_metrics TDPO1Model \<lparr>loss = \<lparr>beta = 1, alpha = 1\<rparr>, mode = ''train''\<rparr> None
       (Inr (leaf_tensor ChosenMargin [1, 2, 3, 4], leaf_tensor RejectedMargin [0, 1, 5, 7],
             leaf_tensor ChosenKL [0, 0, 0, 0], leaf_tensor RejectedKL [0, 0, 0, 0],
             [], [])) = Inr (losses, metrics) \<and>
     metrics ''rewards_train/accuracies'' = Some (Tensor accuracies) \<and>
     data (accuracies ! 0) = 0 \<and> data (accuracies ! 3) = 1"
proof -
  let ?cfg = "\<lparr>loss = \<lparr>beta = 1, alpha = 1\<rparr>, mode = ''train''\<rparr>"
  let ?cm = "leaf_tensor ChosenMargin [1, 2, 3, 4]"
  let ?rm = "leaf_tensor RejectedMargin [0, 1, 5, 7]"
  let ?ck = "leaf_tensor ChosenKL [0, 0, 0, 0]"
  let ?rk = "leaf_tensor RejectedKL [0, 0, 0, 0]"
  have len: "length ?cm = 4" "length ?rm = 4" "length ?ck = 4" "length ?rk = 4"
    by (simp_all add: leaf_tensor_def)
  from reward_accuracy_reversed_pairing[OF len, of TDPO1Model ?cfg None "[]" "[]"]
  obtain losses metrics accuracies chosen_rewards rejected_rewards where
    g: "get_batch_metrics TDPO1Model ?cfg None (Inr (?cm, ?rm, ?ck, ?rk, [], []))
          = Inr (losses, metrics)"
    and k: "metrics (''rewards_'' @ (case None of None \<Rightarrow> mode ?cfg | Some m \<Rightarrow> m)
          @ ''/accuracies'') = Some (Tensor accuracies)"
    and "metrics (''rewards_'' @ (case None of None \<Rightarrow> mode ?cfg | Some m \<Rightarrow> m)
          @ ''/chosen'') = Some (Tensor chosen_rewards)"
    and "metrics (''rewards_'' @ (case None of None \<Rightarrow> mode ?cfg | Some m \<Rightarrow> m)
          @ ''/rejected'') = Some (Tensor rejected_rewards)"
    and a: "\<forall>i<4.
        data (accuracies ! i) =
          (if data (chosen_rewards ! i) > data (rejected_rewards ! (4 - 1 - i)) then 1 else 0) \<and>
        data (chosen_rewards ! i) =
          beta (loss ?cfg) * (data (?cm ! i) + data (?ck ! i)) \<and>
        data (rejected_rewards ! i) =
          beta (loss ?cfg) * (data (?rm ! i) + data (?rk ! i))"
    by blast
  from a[rule_format, of 0] a[rule_format, of 3]
  have "data (accuracies ! 0) = 0" "data (accuracies ! 3) = 1"
    by (simp_all add: leaf_tensor_def)
  with g k show ?thesis by simp
qed

section \<open>Facts about the sequence aligner\<close>

lemma tdpo_gather_fails:
  assumes pre: "shape_precondition logits0 reference_logits0 labels0"
    and bd: "bdim (dim2 reference_logits0) (dim2 logits0) = Some d"
    and bad: "\<not> (labels_index (dim2 logits0) labels0 \<and>
                labels_index (dim2 reference_logits0) labels0)"
  shows "tdpo_get_batch_logps logits0 reference_logits0 labels0 average_log_prob = Inl RuntimeError"
proof -
  let ?B = "rows labels0" and ?L = "cols labels0 - 1"
  let ?labels1 = "drop_first_label labels0"
  let ?mask = "map_tensor2 (\<lambda>label. label \<noteq> - 100) ?labels1"
  let ?labels = "map_tensor2 (\<lambda>label. if label = - 100 then 0 else label) ?labels1"
  let ?lp = "log_softmax (drop_last_position logits0)"
  let ?rp = "softmax (drop_last_position reference_logits0)"
  let ?rlp = "log_t ?rp"
  from pre have sh: "dim0 logits0 = ?B" "dim1 logits0 = cols labels0"
    "dim0 reference_logits0 = ?B" "dim1 reference_logits0 = cols labels0"
    by (simp_all add: shape_precondition_def)
  obtain diff where diff: "broadcast3 (-) ?rlp ?lp = Inr diff"
    "dim0 diff = ?B" "dim1 diff = ?L" "dim2 diff = d"
    using broadcast3_vocab[of ?rlp ?lp d "(-)"] bd sh by (auto simp: dims_simps)
  have bd2: "bdim (dim2 ?rp) (dim2 diff) = Some d"
    using bd diff(4) by (simp add: dims_simps bdim_bdim)
  obtain weighted where weighted: "broadcast3 (*) ?rp diff = Inr weighted"
    using broadcast3_vocab[of ?rp diff d "(*)"] bd2 diff(2,3,4) sh by (auto simp: dims_simps)
  show ?thesis
  proof (cases "labels_index (dim2 logits0) labels0")
    case False
    then have "gather_labels ?lp ?labels = Inl RuntimeError"
      by (intro gather_labels_fails) (simp add: labels_index_gather dims_simps)
    with pre show ?thesis
      by (simp add: tdpo_get_batch_logps_def shape_precondition_def Let_def result_bind_Inr
          result_bind_Inl diff(1) weighted)
  next
    case True
    with bad have l2: "\<not> labels_index (dim2 reference_logits0) labels0" by simp
    obtain gathered where gathered: "gather_labels ?lp ?labels = Inr gathered"
      "rows gathered = ?B" "cols gathered = ?L"
      using gather_labels_ok[of ?labels ?lp] True sh
      by (auto simp: dims_simps labels_index_gather)
    obtain ptl where ptl: "broadcast2 mul_mask gathered ?mask = Inr ptl"
      using broadcast2_same[of gathered ?mask mul_mask] gathered
      by (auto simp: dims_simps)
    from l2 have "gather_labels ?rlp ?labels = Inl RuntimeError"
      by (intro gather_labels_fails) (simp add: labels_index_gather dims_simps)
    with pre show ?thesis
      by (simp add: tdpo_get_batch_logps_def shape_precondition_def Let_def result_bind_Inr
          result_bind_Inl diff(1) weighted gathered(1) ptl)
  qed
qed

lemma bidx_in_range: "bdim m n = Some d \<Longrightarrow> k < d \<Longrightarrow> bidx m k < m \<and> bidx n k < n"
  by (auto simp: bdim_def bidx_def split: if_splits)

lemma log_softmax_cong:
  assumes "dim2 x = dim2 y" "\<And>v. v < dim2 x \<Longrightarrow> at3 x b t v = at3 y b t v" "k < dim2 x"
  shows "at3 (log_softmax x) b t k = at3 (log_softmax y) b t k"
  using assms by (simp add: log_softmax_def)

lemma softmax_cong:
  assumes "dim2 x = dim2 y" "\<And>v. v < dim2 x \<Longrightarrow> at3 x b t v = at3 y b t v" "k < dim2 x"
  shows "at3 (softmax x) b t k = at3 (softmax y) b t k"
  using assms by (simp add: softmax_def)

lemma log_t_softmax_cong:
  assumes "dim2 x = dim2 y" "\<And>v. v < dim2 x \<Longrightarrow> at3 x b t v = at3 y b t v" "k < dim2 x"
  shows "at3 (log_t (softmax x)) b t k = at3 (log_t (softmax y)) b t k"
  using assms by (simp add: softmax_def log_t_def)

lemma tdpo_characterization:
  assumes pre: "shape_precondition logits0 reference_logits0 labels0"
  shows "tdpo_get_batch_logps logits0 reference_logits0 labels0 average_log_prob =
    (case bdim (dim2 reference_logits0) (dim2 logits0) of
       None \<Rightarrow> Inl RuntimeError
     | Some d \<Rightarrow>
         if labels_index (dim2 logits0) labels0 \<and> labels_index (dim2 reference_logits0) labels0
         then Inr (map (\<lambda>b. aggregate average_log_prob
                (margin_sum logits0 reference_logits0 labels0 b) (mask_count labels0 b))
                  [0..<rows labels0],
                map (\<lambda>b. aggregate average_log_prob
                (kl_sum d logits0 reference_logits0 labels0 b) (mask_count labels0 b))
                  [0..<rows labels0],
                map (\<lambda>b. aggregate average_log_prob
                (logp_sum logits0 labels0 b) (mask_count labels0 b))
                  [0..<rows labels0])
         else Inl RuntimeError)"
  using tdpo_broadcast_fails[OF pre] tdpo_gather_fails[OF pre] tdpo_returns[OF pre]
  by (auto split: option.splits)

lemma tdpo_returnsD:
  assumes "tdpo_get_batch_logps logits0 reference_logits0 labels0 average_log_prob = Inr out"
  shows "shape_precondition logits0 reference_logits0 labels0 \<and>
    (\<exists>d. bdim (dim2 reference_logits0) (dim2 logits0) = Some d \<and>
       labels_index (dim2 logits0) labels0 \<and> labels_index (dim2 reference_logits0) labels0 \<and>
       out = (map (\<lambda>b. aggregate average_log_prob
                (margin_sum logits0 reference_logits0 labels0 b) (mask_count labels0 b))
                  [0..<rows labels0],
                map (\<lambda>b. aggregate average_log_prob
                (kl_sum d logits0 reference_logits0 labels0 b) (mask_count labels0 b))
                  [0..<rows labels0],
                map (\<lambda>b. aggregate average_log_prob
                (logp_sum logits0 labels0 b) (mask_count labels0 b))
                  [0..<rows labels0]))"
proof -
  have pre: "shape_precondition logits0 reference_logits0 labels0"
    using assms tdpo_assert_fails[of logits0 reference_logits0 labels0 average_log_prob]
    by (cases "shape_precondition logits0 reference_logits0 labels0") simp_all
  from assms show ?thesis
    unfolding tdpo_characterization[OF pre]
    using pre by (auto split: option.splits if_splits)
qed

lemma labels_index_cong:
  assumes "tensor2_equal (drop_first_label labels) (drop_first_label labels')"
  shows "labels_index V labels = labels_index V labels'"
  using assms
  by (simp add: tensor2_equal_alt labels_index_alt shifted_label_def dims_simps at_simps)

lemma shifted_cong:
  assumes "tensor2_equal (drop_first_label labels) (drop_first_label labels')"
    "b < rows labels" "t < cols labels - 1"
  shows "shifted_label labels b t = shifted_label labels' b t"
    "shifted_mask labels b t = shifted_mask labels' b t"
  using assms
  by (simp_all add: tensor2_equal_alt shifted_label_def shifted_mask_def dims_simps at_simps)

lemma mask_count_cong:
  assumes "tensor2_equal (drop_first_label labels) (drop_first_label labels')"
    "b < rows labels"
  shows "mask_count labels b = mask_count labels' b"
proof -
  have "cols labels - 1 = cols labels' - 1"
    using assms(1) by (simp add: tensor2_equal_alt dims_simps)
  then show ?thesis
    using shifted_cong(2)[OF assms] by (simp add: mask_count_def)
qed

lemma entries_cong:
  assumes eq: "tensor3_equal (drop_last_position x) (drop_last_position y)"
    and b: "b < dim0 x" and t: "t < dim1 x - 1" and k: "k < dim2 x"
  shows "at3 (log_softmax x) b t k = at3 (log_softmax y) b t k"
    "at3 (softmax x) b t k = at3 (softmax y) b t k"
    "at3 (log_t (softmax x)) b t k = at3 (log_t (softmax y)) b t k"
proof -
  from eq have d: "dim2 x = dim2 y"
    and e: "\<And>v. v < dim2 x \<Longrightarrow> at3 x b t v = at3 y b t v"
    using b t by (simp_all add: tensor3_equal_alt drop_last_position_def)
  show "at3 (log_softmax x) b t k = at3 (log_softmax y) b t k"
    by (rule log_softmax_cong[OF d e k])
  show "at3 (softmax x) b t k = at3 (softmax y) b t k"
    by (rule softmax_cong[OF d e k])
  show "at3 (log_t (softmax x)) b t k = at3 (log_t (softmax y)) b t k"
    by (rule log_t_softmax_cong[OF d e k])
qed


lemma token_logp_cong:
  assumes l: "tensor3_equal (drop_last_position x) (drop_last_position y)"
    and lab: "tensor2_equal (drop_first_label labels) (drop_first_label labels')"
    and sh: "dim0 x = rows labels" "dim1 x = cols labels"
    and ok: "labels_index (dim2 x) labels"
    and b: "b < rows labels" and t: "t < cols labels - 1"
  shows "token_logp x labels b t = token_logp y labels' b t"
    "reference_token_logp x labels b t = reference_token_logp y labels' b t"
proof -
  from ok b t have "0 \<le> shifted_label labels b t \<and> shifted_label labels b t < int (dim2 x)"
    by (simp add: labels_index_alt)
  then have "nat (shifted_label labels b t) < dim2 x"
    by linarith
  with entries_cong[OF l, of b t "nat (shifted_label labels b t)"] sh b t
  show "token_logp x labels b t = token_logp y labels' b t"
    "reference_token_logp x labels b t = reference_token_logp y labels' b t"
    by (simp_all add: token_logp_def reference_token_logp_def shifted_cong[OF lab b t])
qed

lemma position_kl_cong:
  assumes l: "tensor3_equal (drop_last_position x) (drop_last_position y)"
    and r: "tensor3_equal (drop_last_position rx) (drop_last_position ry)"
    and bd: "bdim (dim2 rx) (dim2 x) = Some d"
    and b: "b < dim0 x" "b < dim0 rx" and t: "t < dim1 x - 1" "t < dim1 rx - 1"
  shows "position_kl d x rx b t = position_kl d y ry b t"
proof -
  from l r have d: "dim2 x = dim2 y" "dim2 rx = dim2 ry"
    by (simp_all add: tensor3_equal_alt drop_last_position_def)
  show ?thesis
    unfolding position_kl_def
  proof (rule sum.cong[OF refl])
    fix k assume "k \<in> {..<d}"
    then have "bidx (dim2 rx) k < dim2 rx" "bidx (dim2 x) k < dim2 x"
      using bidx_in_range[OF bd, of k] by simp_all
    with entries_cong[OF l b(1) t(1), of "bidx (dim2 x) k"]
      entries_cong[OF r b(2) t(2), of "bidx (dim2 rx) k"] d
    show "at3 (softmax rx) b t (bidx (dim2 rx) k) *
         (at3 (log_t (softmax rx)) b t (bidx (dim2 rx) k) -
          at3 (log_softmax x) b t (bidx (dim2 x) k)) =
         at3 (softmax ry) b t (bidx (dim2 ry) k) *
         (at3 (log_t (softmax ry)) b t (bidx (dim2 ry) k) -
          at3 (log_softmax y) b t (bidx (dim2 y) k))"
      by simp
  qed
qed

lemma aligner_depends_on_slices:
  assumes pre: "shape_precondition logits reference_logits labels"
    and pre': "shape_precondition logits' reference_logits' labels'"
    and lab: "tensor2_equal (drop_first_label labels) (drop_first_label labels')"
    and l: "tensor3_equal (drop_last_position logits) (drop_last_position logits')"
    and r: "tensor3_equal (drop_last_position reference_logits)
              (drop_last_position reference_logits')"
  shows "tdpo_get_batch_logps logits reference_logits labels average_log_prob =
         tdpo_get_batch_logps logits' reference_logits' labels' average_log_prob"
proof -
  from pre have sh: "dim0 logits = rows labels" "dim1 logits = cols labels"
    "dim0 reference_logits = rows labels" "dim1 reference_logits = cols labels"
    by (simp_all add: shape_precondition_def)
  from lab have B: "rows labels' = rows labels" and L: "cols labels' - 1 = cols labels - 1"
    by (simp_all add: tensor2_equal_alt dims_simps)
  from l r have V: "dim2 logits' = dim2 logits" "dim2 reference_logits' = dim2 reference_logits"
    by (simp_all add: tensor3_equal_alt drop_last_position_def)
  have li: "labels_index n labels' = labels_index n labels" for n
    using labels_index_cong[OF lab] by simp
  show ?thesis
  proof (cases "bdim (dim2 reference_logits) (dim2 logits)")
    case None
    then show ?thesis
      by (simp add: tdpo_characterization[OF pre] tdpo_characterization[OF pre'] V)
  next
    case (Some d)
    show ?thesis
    proof (cases "labels_index (dim2 logits) labels \<and>
        labels_index (dim2 reference_logits) labels")
      case False
      then have "\<not> (labels_index (dim2 logits') labels' \<and>
        labels_index (dim2 reference_logits') labels')"
        by (simp add: V li)
      with False show ?thesis
        by (simp add: tdpo_characterization[OF pre] tdpo_characterization[OF pre'] V Some
            del: de_Morgan_conj)
    next
      case True
      have cnt: "mask_count labels' b = mask_count labels b" if "b < rows labels" for b
        using mask_count_cong[OF lab that] by simp
      have tok: "token_logp logits' labels' b t = token_logp logits labels b t"
        "reference_token_logp reference_logits' labels' b t =
           reference_token_logp reference_logits labels b t"
        "shifted_mask labels' b t = shifted_mask labels b t"
        if "b < rows labels" "t < cols labels - 1" for b t
        using token_logp_cong(1)[OF l lab sh(1,2) _ that]
          token_logp_cong(2)[OF r lab sh(3,4) _ that] shifted_cong(2)[OF lab that] True
        by simp_all
      have kl: "position_kl d logits' reference_logits' b t =
          position_kl d logits reference_logits b t"
        if "b < rows labels" "t < cols labels - 1" for b t
        using position_kl_cong[OF l r Some, of b t] that sh by simp
      have "margin_sum logits' reference_logits' labels' b =
          margin_sum logits reference_logits labels b"
        "kl_sum d logits' reference_logits' labels' b = kl_sum d logits reference_logits labels b"
        "logp_sum logits' labels' b = logp_sum logits labels b"
        if "b < rows labels" for b
        using that L by (simp_all add: margin_sum_def kl_sum_def logp_sum_def tok kl)
      then show ?thesis
        using True
        by (simp add: tdpo_characterization[OF pre] tdpo_characterization[OF pre'] V li Some
            B cnt)
    qed
  qed
qed

section \<open>Claims about the sequence aligner\<close>

text \<open>
  C3. The result of \<^verbatim>\<open>tdpo_get_batch_logps\<close> depends only on the labels at positions
  \<open>1..L-1\<close> and on the logits at positions \<open>0..L-2\<close>. For two inputs that agree on
  \<^verbatim>\<open>labels[:, 1:]\<close>, \<^verbatim>\<open>logits[:, :-1, :]\<close> and \<^verbatim>\<open>reference_logits[:, :-1, :]\<close>:
  whenever both calls return, the triples \<open>(logps_margin, position_kl, logps)\<close> are
  identical; and whenever both inputs pass the shape asserts, the two calls have the
  same outcome altogether, a triple or the same exception. This holds under either
  aggregation. In particular the last logits position and the first label position do
  not matter.
\<close>

theorem aligner_shift_consistency:
  assumes lab: "tensor2_equal (drop_first_label labels) (drop_first_label labels')"
    and l: "tensor3_equal (drop_last_position logits) (drop_last_position logits')"
    and r: "tensor3_equal (drop_last_position reference_logits)
              (drop_last_position reference_logits')"
  shows "(\<forall>out out'.
            tdpo_get_batch_logps logits reference_logits labels average_log_prob = Inr out \<and>
            tdpo_get_batch_logps logits' reference_logits' labels' average_log_prob = Inr out'
            \<longrightarrow> out = out') \<and>
         (shape_precondition logits reference_logits labels \<and>
          shape_precondition logits' reference_logits' labels' \<longrightarrow>
            tdpo_get_batch_logps logits reference_logits labels average_log_prob =
            tdpo_get_batch_logps logits' reference_logits' labels' average_log_prob)"
proof (intro conjI allI impI)
  assume "shape_precondition logits reference_logits labels \<and>
          shape_precondition logits' reference_logits' labels'"
  then show "tdpo_get_batch_logps logits reference_logits labels average_log_prob =
      tdpo_get_batch_logps logits' reference_logits' labels' average_log_prob"
    using aligner_depends_on_slices[OF _ _ lab l r] by simp
next
  fix out out'
  assume ret: "tdpo_get_batch_logps logits reference_logits labels average_log_prob = Inr out \<and>
    tdpo_get_batch_logps logits' reference_logits' labels' average_log_prob = Inr out'"
  have "shape_precondition logits reference_logits labels"
    using ret tdpo_assert_fails[of logits reference_logits labels average_log_prob]
    by (cases "shape_precondition logits reference_logits labels") simp_all
  moreover have "shape_precondition logits' reference_logits' labels'"
    using ret tdpo_assert_fails[of logits' reference_logits' labels' average_log_prob]
    by (cases "shape_precondition logits' reference_logits' labels'") simp_all
  ultimately show "out = out'"
    using aligner_depends_on_slices[OF _ _ lab l r, of average_log_prob] ret by simp
qed

theorem aligner_shift_consistency_witness:
  "tdpo_get_batch_logps (tensor3_of [[[0, 1], [2, 3]]]) (tensor3_of [[[1, 1], [0, 0]]])
     (tensor2_of [[0, 1]]) False =
   tdpo_get_batch_logps (tensor3_of [[[0, 1], [7, 9]]]) (tensor3_of [[[1, 1], [5, 6]]])
     (tensor2_of [[1, 1]]) False"
  using aligner_shift_consistency[of "tensor2_of [[0, 1]]" "tensor2_of [[1, 1]]"
      "tensor3_of [[[0, 1], [2, 3]]]" "tensor3_of [[[0, 1], [7, 9]]]"
      "tensor3_of [[[1, 1], [0, 0]]]" "tensor3_of [[[1, 1], [5, 6]]]" False]
  by (simp add: shape_precondition_def tensor2_of_def tensor3_of_def tensor2_equal_alt
      tensor3_equal_alt drop_first_label_def drop_last_position_def)

lemmas concrete_simps = shape_precondition_def tensor2_of_def tensor3_of_def full3_def
  bdim_def labels_index_alt shifted_label_def

lemmas value_simps = margin_sum_def kl_sum_def logp_sum_def mask_count_def token_logp_def
  reference_token_logp_def position_kl_def log_softmax_def softmax_def log_t_def mul_mask_def
  shifted_mask_def bidx_def aggregate_def fdiv_def

lemma all_masked_sums:
  assumes masked: "\<forall>t. 1 \<le> t \<and> t < cols labels \<longrightarrow> at2 labels b t = - 100"
  shows "margin_sum logits reference_logits labels b = 0"
    "kl_sum d logits reference_logits labels b = 0"
    "logp_sum logits labels b = 0"
    "mask_count labels b = 0"
proof -
  have m: "\<not> shifted_mask labels b t" if "t < cols labels - 1" for t
    using masked that by (simp add: shifted_mask_def)
  show "margin_sum logits reference_logits labels b = 0"
    "kl_sum d logits reference_logits labels b = 0"
    "logp_sum logits labels b = 0"
    "mask_count labels b = 0"
    using m by (simp_all add: margin_sum_def kl_sum_def logp_sum_def mask_count_def mul_mask_def)
qed

text \<open>
  C6. The claim that the aligner returns whenever the shape precondition holds fails:
  with the precondition satisfied, a label outside the vocabulary makes \<^verbatim>\<open>gather\<close>
  raise, and so do two logits tensors whose vocabulary sizes differ and do not
  broadcast.
\<close>

theorem aligner_raises_despite_precondition:
  "shape_precondition (full3 1 2 1 0) (full3 1 2 1 0) (tensor2_of [[0, 5]]) \<and>
   tdpo_get_batch_logps (full3 1 2 1 0) (full3 1 2 1 0) (tensor2_of [[0, 5]]) False
     = Inl RuntimeError \<and>
   shape_precondition (full3 1 2 2 0) (full3 1 2 3 0) (tensor2_of [[0, 0]]) \<and>
   tdpo_get_batch_logps (full3 1 2 2 0) (full3 1 2 3 0) (tensor2_of [[0, 0]]) False
     = Inl RuntimeError"
proof -
  have p1: "shape_precondition (full3 1 2 1 0) (full3 1 2 1 0) (tensor2_of [[0, 5]])"
    and p2: "shape_precondition (full3 1 2 2 0) (full3 1 2 3 0) (tensor2_of [[0, 0]])"
    by (simp_all add: concrete_simps)
  have "tdpo_get_batch_logps (full3 1 2 1 0) (full3 1 2 1 0) (tensor2_of [[0, 5]]) False
      = Inl RuntimeError"
    by (rule tdpo_gather_fails[OF p1, where d = 1]) (simp_all add: concrete_simps)
  moreover have "tdpo_get_batch_logps (full3 1 2 2 0) (full3 1 2 3 0) (tensor2_of [[0, 0]]) False
      = Inl RuntimeError"
    by (rule tdpo_broadcast_fails[OF p2]) (simp add: concrete_simps)
  ultimately show ?thesis using p1 p2 by simp
qed

text \<open>
  C6, as amended. \<^verbatim>\<open>tdpo_get_batch_logps\<close> first asserts
  \<^verbatim>\<open>logits.shape[:-1] == labels.shape == reference_logits.shape[:-1]\<close> and raises
  \<^verbatim>\<open>AssertionError\<close> when that fails. When it holds, the function returns three
  vectors of shape \<open>(batch,)\<close> if the two vocabulary sizes broadcast (they are equal, or
  one of them is 1) and every label at positions \<open>1..L-1\<close>, with the sentinel replaced by
  0, is an index into both vocabularies; otherwise it raises a \<^verbatim>\<open>RuntimeError\<close>.
\<close>

theorem aligner_precondition:
  "(\<not> shape_precondition logits reference_logits labels \<longrightarrow>
      tdpo_get_batch_logps logits reference_logits labels average_log_prob
        = Inl AssertionError) \<and>
   (shape_precondition logits reference_logits labels \<and>
    bdim (dim2 reference_logits) (dim2 logits) \<noteq> None \<and>
    labels_index (dim2 logits) labels \<and> labels_index (dim2 reference_logits) labels \<longrightarrow>
      (\<exists>logps_margin position_kl logps.
         tdpo_get_batch_logps logits reference_logits labels average_log_prob
           = Inr (logps_margin, position_kl, logps) \<and>
         length logps_margin = rows labels \<and> length position_kl = rows labels \<and>
         length logps = rows labels)) \<and>
   (shape_precondition logits reference_logits labels \<and>
    \<not> (bdim (dim2 reference_logits) (dim2 logits) \<noteq> None \<and>
       labels_index (dim2 logits) labels \<and> labels_index (dim2 reference_logits) labels) \<longrightarrow>
      tdpo_get_batch_logps logits reference_logits labels average_log_prob
        = Inl RuntimeError)"
proof (intro conjI impI)
  assume "\<not> shape_precondition logits reference_logits labels"
  then show "tdpo_get_batch_logps logits reference_logits labels average_log_prob
      = Inl AssertionError"
    by (rule tdpo_assert_fails)
next
  assume a: "shape_precondition logits reference_logits labels \<and>
    bdim (dim2 reference_logits) (dim2 logits) \<noteq> None \<and>
    labels_index (dim2 logits) labels \<and> labels_index (dim2 reference_logits) labels"
  then obtain d where "bdim (dim2 reference_logits) (dim2 logits) = Some d" by auto
  with a show "\<exists>logps_margin position_kl logps.
         tdpo_get_batch_logps logits reference_logits labels average_log_prob
           = Inr (logps_margin, position_kl, logps) \<and>
         length logps_margin = rows labels \<and> length position_kl = rows labels \<and>
         length logps = rows labels"
    by (simp add: tdpo_returns)
next
  assume a: "shape_precondition logits reference_logits labels \<and>
    \<not> (bdim (dim2 reference_logits) (dim2 logits) \<noteq> None \<and>
       labels_index (dim2 logits) labels \<and> labels_index (dim2 reference_logits) labels)"
  then show "tdpo_get_batch_logps logits reference_logits labels average_log_prob
        = Inl RuntimeError"
    by (cases "bdim (dim2 reference_logits) (dim2 logits)")
      (auto simp: tdpo_characterization)
qed

theorem aligner_precondition_witness:
  "tdpo_get_batch_logps (full3 1 3 2 0) (full3 1 2 2 0) (tensor2_of [[0, 0]]) False
     = Inl AssertionError \<and>
   (\<exists>logps_margin position_kl logps.
      tdpo_get_batch_logps (full3 2 3 2 0) (full3 2 3 2 0)
        (tensor2_of [[0, 1, - 100], [0, 0, 1]]) False = Inr (logps_margin, position_kl, logps) \<and>
      length logps_margin = 2 \<and> length position_kl = 2 \<and> length logps = 2) \<and>
   tdpo_get_batch_logps (full3 1 2 1 0) (full3 1 2 1 0) (tensor2_of [[0, 5]]) False
     = Inl RuntimeError"
  using aligner_precondition[of "full3 1 3 2 0" "full3 1 2 2 0" "tensor2_of [[0, 0]]" False]
    aligner_precondition[of "full3 2 3 2 0" "full3 2 3 2 0"
      "tensor2_of [[0, 1, - 100], [0, 0, 1]]" False]
    aligner_precondition[of "full3 1 2 1 0" "full3 1 2 1 0" "tensor2_of [[0, 5]]" False]
  by (auto simp add: concrete_simps less_Suc_eq)

lemma gibbs_term:
  fixes p q :: real
  assumes "0 < p" "0 < q"
  shows "p - q \<le> p * (ln p - ln q)"
proof -
  have "ln (q / p) \<le> q / p - 1"
    using assms by (intro ln_le_minus_one) simp
  then have "ln q - ln p \<le> q / p - 1"
    using assms by (simp add: ln_div)
  then have "p * (ln q - ln p) \<le> p * (q / p - 1)"
    using assms by (intro mult_left_mono) simp_all
  also have "p * (q / p - 1) = q - p"
    using assms by (simp add: field_simps)
  finally show ?thesis by (simp add: algebra_simps)
qed

lemma position_kl_nonneg:
  assumes V: "dim2 reference_logits = dim2 logits"
  shows "0 \<le> position_kl (dim2 logits) logits reference_logits b t"
proof (cases "dim2 logits = 0")
  case True
  then show ?thesis by (simp add: position_kl_def)
next
  case False
  let ?V = "dim2 logits"
  define Z where "Z = (\<Sum>u<?V. exp (at3 logits b t u))"
  define Z' where "Z' = (\<Sum>u<?V. exp (at3 reference_logits b t u))"
  define q where "q = (\<lambda>k. exp (at3 logits b t k) / Z)"
  define p where "p = (\<lambda>k. exp (at3 reference_logits b t k) / Z')"
  have Zpos: "0 < Z" "0 < Z'"
    unfolding Z_def Z'_def using False by (auto intro!: sum_pos)
  have pos: "0 < p k" "0 < q k" for k
    using Zpos by (simp_all add: p_def q_def)
  have one: "(\<Sum>k<?V. p k) = 1" "(\<Sum>k<?V. q k) = 1"
    using Zpos by (simp_all add: p_def q_def Z_def Z'_def flip: sum_divide_distrib)
  have lq: "at3 (log_softmax logits) b t k = ln (q k)" for k
    using Zpos by (simp add: log_softmax_def q_def Z_def ln_div)
  have "position_kl ?V logits reference_logits b t = (\<Sum>k<?V. p k * (ln (p k) - ln (q k)))"
    unfolding position_kl_def
    by (rule sum.cong[OF refl])
      (simp add: V bidx_less lq, simp add: softmax_def log_t_def p_def Z'_def V)
  moreover have "(\<Sum>k<?V. p k - q k) \<le> (\<Sum>k<?V. p k * (ln (p k) - ln (q k)))"
    by (intro sum_mono gibbs_term pos)
  moreover have "(\<Sum>k<?V. p k - q k) = 0"
    by (simp add: sum_subtractf one)
  ultimately show ?thesis by simp
qed

lemma kl_sum_nonneg:
  assumes V: "dim2 reference_logits = dim2 logits"
  shows "0 \<le> kl_sum (dim2 logits) logits reference_logits labels b"
  unfolding kl_sum_def
  by (intro sum_nonneg) (simp add: mul_mask_def position_kl_nonneg[OF V])

text \<open>
  C10. The claim that the aggregated \<open>position_kl\<close> is nonnegative for every input fails
  where the two vocabulary sizes differ and broadcast: a policy vocabulary of size 1
  against a uniform reference over 2 tokens gives \<open>position_kl = - ln 2\<close>.
\<close>

theorem position_kl_negative_under_broadcast:
  "shape_precondition (full3 1 2 1 0) (full3 1 2 2 0) (tensor2_of [[0, 0]]) \<and>
   tdpo_get_batch_logps (full3 1 2 1 0) (full3 1 2 2 0) (tensor2_of [[0, 0]]) False =
     Inr ([Fin (ln 2)], [Fin (- ln 2)], [Fin 0]) \<and>
   - ln (2 :: real) < 0"
proof -
  have pre: "shape_precondition (full3 1 2 1 0) (full3 1 2 2 0) (tensor2_of [[0, 0]])"
    by (simp add: concrete_simps)
  have bd: "bdim (dim2 (full3 1 2 2 0)) (dim2 (full3 1 2 1 0)) = Some 2"
    by (simp add: concrete_simps)
  have l1: "labels_index (dim2 (full3 1 2 1 0)) (tensor2_of [[0, 0]])"
    and l2: "labels_index (dim2 (full3 1 2 2 0)) (tensor2_of [[0, 0]])"
    by (auto simp add: concrete_simps less_Suc_eq)
  have "tdpo_get_batch_logps (full3 1 2 1 0) (full3 1 2 2 0) (tensor2_of [[0, 0]]) False =
     Inr ([Fin (ln 2)], [Fin (- ln 2)], [Fin 0])"
    unfolding tdpo_returns[OF pre bd l1 l2]
    by (simp add: value_simps full3_def tensor2_of_def shifted_label_def ln_div)
  with pre show ?thesis by simp
qed

text \<open>
  C10, as amended. Under exact real arithmetic, for every input whose policy and
  reference logits have the same vocabulary size, whenever the call with
  \<open>average_log_prob = False\<close> returns, the \<open>position_kl\<close> of every sequence \<open>b\<close> is
  nonnegative: each position's term is a Kullback-Leibler divergence, nonnegative by
  Gibbs' inequality, weighted by the mask. The call returns when the shapes agree and
  the labels index the vocabulary.
\<close>

theorem position_kl_nonnegative:
  assumes V: "dim2 reference_logits = dim2 logits"
    and b: "b < rows labels"
  shows "(\<forall>logps_margin position_kl logps.
            tdpo_get_batch_logps logits reference_logits labels False =
              Inr (logps_margin, position_kl, logps) \<longrightarrow>
            (\<exists>x. position_kl ! b = Fin x \<and> 0 \<le> x)) \<and>
         (shape_precondition logits reference_logits labels \<and>
          labels_index (dim2 logits) labels \<longrightarrow>
            (\<exists>out. tdpo_get_batch_logps logits reference_logits labels False = Inr out))"
proof (intro conjI allI impI)
  fix logps_margin position_kl logps
  assume "tdpo_get_batch_logps logits reference_logits labels False =
      Inr (logps_margin, position_kl, logps)"
  from tdpo_returnsD[OF this] b kl_sum_nonneg[OF V]
  show "\<exists>x. position_kl ! b = Fin x \<and> 0 \<le> x"
    by (auto simp add: aggregate_def V bdim_same)
next
  assume a: "shape_precondition logits reference_logits labels \<and>
          labels_index (dim2 logits) labels"
  have bd: "bdim (dim2 reference_logits) (dim2 logits) = Some (dim2 logits)"
    by (simp add: V bdim_same)
  from a V show "\<exists>out. tdpo_get_batch_logps logits reference_logits labels False = Inr out"
    by (simp add: tdpo_returns[OF _ bd])
qed

theorem position_kl_nonnegative_witness:
  "\<exists>logps_margin position_kl logps x.
     tdpo_get_batch_logps (tensor3_of [[[0, 1], [2, 3]]]) (tensor3_of [[[1, 1], [0, 0]]])
       (tensor2_of [[0, 1]]) False = Inr (logps_margin, position_kl, logps) \<and>
     position_kl ! 0 = Fin x \<and> 0 \<le> x"
proof -
  let ?logits = "tensor3_of [[[0, 1], [2, 3]]]" and ?reference = "tensor3_of [[[1, 1], [0, 0]]]"
  let ?labels = "tensor2_of [[0, 1 :: int]]"
  have V: "dim2 ?reference = dim2 ?logits" and b: "0 < rows ?labels"
    and ret: "shape_precondition ?logits ?reference ?labels \<and>
          labels_index (dim2 ?logits) ?labels"
    by (auto simp add: concrete_simps less_Suc_eq)
  note inst = position_kl_nonnegative[OF V b]
  from inst ret obtain out where
    "tdpo_get_batch_logps ?logits ?reference ?labels False = Inr out"
    by blast
  with inst show ?thesis
    by (cases out) blast
qed

section \<open>Claims about the forward pass\<close>

text \<open>
  C9. \<^verbatim>\<open>TDPO1Model.forward\<close> ignores its parameter \<open>average_log_prob\<close>: the call of
  \<^verbatim>\<open>tdpo_get_batch_logps\<close> inside it passes \<open>False\<close>, so for every model and batch the
  outcome is the same whether the caller passes \<open>True\<close> or \<open>False\<close>.
\<close>

theorem forward_ignores_average_log_prob:
  "forward self model batch True = forward self model batch False"
  by (simp add: forward_def)

lemma rows_cols_tensor2_of:
  "rows (tensor2_of xss) = length xss"
  "cols (tensor2_of (xs # xss)) = length xs"
  by (simp_all add: tensor2_of_def)

theorem forward_ignores_average_log_prob_witness:
  "forward
     \<lparr>concatenated_inputs = (\<lambda>batch.
        \<lparr>concatenated_combined_input_ids = tensor2_of [[1, 2], [3, 4]],
         concatenated_combined_attention_mask = tensor2_of [[1, 1], [1, 1]],
         concatenated_labels = tensor2_of [[- 100, - 100], [- 100, - 100]]\<rparr>),
      reference_model = (\<lambda>input_ids attention_mask use_cache. full3 2 2 2 0),
      is_mistral = False\<rparr>
     (\<lambda>input_ids attention_mask use_cache. full3 2 2 2 1)
     \<lparr>chosen_input_ids = tensor2_of [[1, 2]]\<rparr> True =
   Inr ([Fin 0], [Fin 0], [Fin 0], [Fin 0], [Fin 0], [Fin 0])"
proof -
  let ?labels = "tensor2_of [[- 100, - 100], [- 100, - 100 :: int]]"
  have pre: "shape_precondition (full3 2 2 2 1) (full3 2 2 2 0) ?labels"
    by (simp add: concrete_simps)
  have bd: "bdim (dim2 (full3 2 2 2 0)) (dim2 (full3 2 2 2 1)) = Some 2"
    by (simp add: concrete_simps)
  have l1: "labels_index (dim2 (full3 2 2 2 1)) ?labels"
    and l2: "labels_index (dim2 (full3 2 2 2 0)) ?labels"
    by (auto simp add: concrete_simps less_Suc_eq)
  have masked: "\<forall>t. 1 \<le> t \<and> t < cols ?labels \<longrightarrow> at2 ?labels b t = - 100" if "b < 2" for b
    using that by (auto simp add: tensor2_of_def less_Suc_eq numeral_2_eq_2)
  have sums: "tdpo_get_batch_logps (full3 2 2 2 1) (full3 2 2 2 0) ?labels False =
      Inr ([Fin 0, Fin 0], [Fin 0, Fin 0], [Fin 0, Fin 0])"
    unfolding tdpo_returns[OF pre bd l1 l2]
    by (simp add: all_masked_sums[OF masked] aggregate_def rows_cols_tensor2_of upt_rec)
  have "forward
     \<lparr>concatenated_inputs = (\<lambda>batch.
        \<lparr>concatenated_combined_input_ids = tensor2_of [[1, 2], [3, 4]],
         concatenated_combined_attention_mask = tensor2_of [[1, 1], [1, 1]],
         concatenated_labels = ?labels\<rparr>),
      reference_model = (\<lambda>input_ids attention_mask use_cache. full3 2 2 2 0),
      is_mistral = False\<rparr>
     (\<lambda>input_ids attention_mask use_cache. full3 2 2 2 1)
     \<lparr>chosen_input_ids = tensor2_of [[1, 2]]\<rparr> False =
   Inr ([Fin 0], [Fin 0], [Fin 0], [Fin 0], [Fin 0], [Fin 0])"
    by (simp add: forward_def rows_cols_tensor2_of sums result_bind_Inr)
  then show ?thesis
    by (simp only: forward_ignores_average_log_prob)
qed

end
